theory Spec2Isabelle
  imports Complex_Main
begin

section \<open>The tensor substrate\<close>

text \<open>
  The layer of \<^verbatim>\<open>torchtune/modules/peft/lora.py\<close> computes with tensors of the
  underlying library. The specification fixes the arithmetic as real-valued, so an entry
  is a \<^typ>\<open>real\<close>. A dense tensor of shape \<open>(d1, ..., dk, w)\<close> is kept as its leading
  dimensions \<open>lead = [d1, ..., dk]\<close>, the size \<open>width = w\<close> of its last dimension and the
  list of its \<open>d1 * ... * dk\<close> rows, each of length \<open>w\<close>: a matrix \<open>out \<times> in\<close> has
  \<open>lead = [out]\<close>, a one-dimensional vector has \<open>lead = []\<close> and a single row, an input of
  shape \<open>(..., in_dim)\<close> has its batch dimensions in \<open>lead\<close>.
\<close>

type_synonym vec = "real list"

record dense =
  lead :: "nat list"
  width :: nat
  rows :: "vec list"

definition wf_dense :: "dense \<Rightarrow> bool" where
  "wf_dense t \<longleftrightarrow>
     length (rows t) = prod_list (lead t) \<and> list_all (\<lambda>r. length r = width t) (rows t)"

definition is_mat :: "nat \<Rightarrow> nat \<Rightarrow> dense \<Rightarrow> bool" where
  "is_mat r c t \<longleftrightarrow> lead t = [r] \<and> width t = c \<and> wf_dense t"

definition is_vec :: "nat \<Rightarrow> dense \<Rightarrow> bool" where
  "is_vec c t \<longleftrightarrow> lead t = [] \<and> width t = c \<and> wf_dense t"

definition mk_mat :: "nat \<Rightarrow> nat \<Rightarrow> (nat \<Rightarrow> nat \<Rightarrow> real) \<Rightarrow> dense" where
  "mk_mat r c f = \<lparr>lead = [r], width = c, rows = map (\<lambda>i. map (f i) [0..<c]) [0..<r]\<rparr>"

definition vec1d :: "vec \<Rightarrow> dense" where
  "vec1d v = \<lparr>lead = [], width = length v, rows = [v]\<rparr>"

text \<open>
  The exceptions the layer can end with. \<open>NotImplementedError\<close> is raised by the layer
  itself; \<open>ZeroDivisionError\<close> by Python's \<open>alpha / rank\<close>; \<open>AttributeError\<close> by reading
  the attribute \<open>lora_m\<close> of a layer built without DoRA; \<open>ValueError\<close> by the dropout
  module for a probability outside \<open>[0, 1]\<close>; \<open>RuntimeError\<close> by a tensor operation
  whose operands do not fit.
\<close>

datatype error =
  NotImplementedError | ZeroDivisionError | AttributeError | ValueError | RuntimeError

definition dot :: "vec \<Rightarrow> vec \<Rightarrow> real" where
  "dot u v = sum_list (map2 (*) u v)"

text \<open>\<open>F.linear(x, w, b)\<close>: every row \<open>r\<close> of \<open>x\<close> becomes \<open>w r + b\<close>.\<close>

definition F_linear :: "dense \<Rightarrow> dense \<Rightarrow> vec option \<Rightarrow> error + dense" where
  "F_linear x w b =
     (if length (lead w) \<noteq> 1 \<or> width x \<noteq> width w
         \<or> (case b of None \<Rightarrow> False | Some bv \<Rightarrow> length bv \<noteq> length (rows w))
      then Inl RuntimeError
      else Inr \<lparr>lead = lead x, width = length (rows w),
                rows = map (\<lambda>r. case b of
                                   None \<Rightarrow> map (dot r) (rows w)
                                 | Some bv \<Rightarrow> map2 (+) (map (dot r) (rows w)) bv)
                           (rows x)\<rparr>)"

text \<open>\<open>b @ a\<close> for two matrices.\<close>

definition column :: "dense \<Rightarrow> nat \<Rightarrow> vec" where
  "column a j = map (\<lambda>r. r ! j) (rows a)"

definition matmul :: "dense \<Rightarrow> dense \<Rightarrow> error + dense" where
  "matmul b a =
     (if length (lead b) \<noteq> 1 \<or> lead a \<noteq> [width b]
      then Inl RuntimeError
      else Inr \<lparr>lead = lead b, width = width a,
                rows = map (\<lambda>r. map (\<lambda>j. dot r (column a j)) [0..<width a]) (rows b)\<rparr>)"

text \<open>\<open>c * t\<close> for a Python float \<open>c\<close>, and \<open>t + u\<close> for tensors of one shape.\<close>

definition smul :: "real \<Rightarrow> dense \<Rightarrow> dense" where
  "smul c t = t\<lparr>rows := map (map ((*) c)) (rows t)\<rparr>"

definition tadd :: "dense \<Rightarrow> dense \<Rightarrow> error + dense" where
  "tadd t u =
     (if lead t \<noteq> lead u \<or> width t \<noteq> width u
      then Inl RuntimeError
      else Inr (t\<lparr>rows := map2 (map2 (+)) (rows t) (rows u)\<rparr>))"

text \<open>\<open>torch.linalg.norm(t, dim=1)\<close> of a matrix: the Euclidean norm of every row.\<close>

definition euclid :: "vec \<Rightarrow> real" where
  "euclid r = sqrt (sum_list (map (\<lambda>v. v\<^sup>2) r))"

definition linalg_norm_dim1 :: "dense \<Rightarrow> error + dense" where
  "linalg_norm_dim1 t =
     (if length (lead t) \<noteq> 1 then Inl RuntimeError
      else Inr (vec1d (map euclid (rows t))))"

text \<open>\<open>torch.clamp(t, min=c)\<close>.\<close>

definition clamp_min :: "real \<Rightarrow> dense \<Rightarrow> dense" where
  "clamp_min c t = t\<lparr>rows := map (map (max c)) (rows t)\<rparr>"

text \<open>
  \<open>m / n\<close> where \<open>n\<close> is one-dimensional and \<open>m\<close> has the same last dimension: \<open>n\<close> is
  broadcast over the rows of \<open>m\<close>.
\<close>

definition div_bcast :: "dense \<Rightarrow> dense \<Rightarrow> error + dense" where
  "div_bcast m n =
     (case rows n of
        [nv] \<Rightarrow> if lead n \<noteq> [] \<or> width m \<noteq> width n then Inl RuntimeError
                else Inr (m\<lparr>rows := map (\<lambda>r. map2 (/) r nv) (rows m)\<rparr>)
      | _ \<Rightarrow> Inl RuntimeError)"

text \<open>\<open>t.view(1, -1)\<close>: one row holding every entry; ambiguous for an empty tensor.\<close>

definition view_1_m1 :: "dense \<Rightarrow> error + dense" where
  "view_1_m1 t =
     (if concat (rows t) = [] then Inl RuntimeError
      else Inr \<lparr>lead = [1], width = length (concat (rows t)), rows = [concat (rows t)]\<rparr>)"

text \<open>
  \<open>y * s\<close> where \<open>s\<close> has shape \<open>(1, w)\<close> and \<open>y\<close> has last dimension \<open>w\<close>: \<open>s\<close> is
  broadcast over the rows of \<open>y\<close>; a one-dimensional \<open>y\<close> gives a result of shape
  \<open>(1, w)\<close>.
\<close>

definition mul_bcast :: "dense \<Rightarrow> dense \<Rightarrow> error + dense" where
  "mul_bcast y s =
     (case rows s of
        [sv] \<Rightarrow> if lead s \<noteq> [1] \<or> width y \<noteq> width s then Inl RuntimeError
                else Inr \<lparr>lead = (if lead y = [] then [1] else lead y), width = width y,
                          rows = map (\<lambda>r. map2 (*) r sv) (rows y)\<rparr>
      | _ \<Rightarrow> Inl RuntimeError)"

text \<open>
  \<open>nn.Dropout(p)\<close> applied to \<open>x\<close>. Outside training, and for \<open>p = 0\<close>, the input is
  returned as it is; for \<open>p = 1\<close> every entry is zeroed; otherwise an entry survives,
  scaled by \<open>1 / (1 - p)\<close>, where the random draw \<open>keep i j\<close> for row \<open>i\<close>, column \<open>j\<close>
  says so, and is zeroed elsewhere. The draws are an argument of the model.
\<close>

definition dropout :: "real \<Rightarrow> bool \<Rightarrow> (nat \<Rightarrow> nat \<Rightarrow> bool) \<Rightarrow> dense \<Rightarrow> dense" where
  "dropout p train keep x =
     (if p = 0 \<or> \<not> train then x
      else if p = 1 then x\<lparr>rows := map (map (\<lambda>v. 0)) (rows x)\<rparr>
      else x\<lparr>rows := map (\<lambda>(i, r). map (\<lambda>(j, v). if keep i j then v / (1 - p) else 0)
                                        (enumerate 0 r))
                           (enumerate 0 (rows x))\<rparr>)"

section \<open>The compressed (NF4) encoding\<close>

text \<open>
  \<open>to_nf4\<close>, \<open>linear_nf4\<close> and the tensor class behind them come from another package,
  so they are parameters of the model: \<open>'q\<close> is the type of encoded tensors, and every
  operation may raise. \<open>dequantize\<close> is the method of that name, \<open>nf4_scale m n\<close> stands
  for \<open>(m / n).view(1, -1)\<close> when \<open>m\<close> or \<open>n\<close> is encoded, \<open>nf4_ones\<close> for
  \<open>nn.init.ones_\<close> on an encoded tensor. Detaching a tensor and reading its \<open>data\<close> do
  not change its entries, so neither appears in the model.
\<close>

datatype 'q tens = Dense dense | NF4 'q

record 'q substrate =
  to_nf4 :: "dense \<Rightarrow> error + 'q"
  dequantize :: "'q tens \<Rightarrow> error + dense"
  linear_nf4 :: "dense \<Rightarrow> 'q tens \<Rightarrow> error + dense"
  nf4_scale :: "'q tens \<Rightarrow> 'q tens \<Rightarrow> error + dense"
  nf4_ones :: "'q \<Rightarrow> error + 'q tens"

section \<open>The layer\<close>

text \<open>
  The attributes of a \<open>LoRALinear\<close> object. \<open>lora_a\<close> and \<open>lora_b\<close> hold the weights
  of the two bias-free linear submodules, \<open>dropout_p\<close> the probability of the dropout
  submodule, \<open>training\<close> the mode flag every module has (set at construction),
  \<open>lora_m\<close> is \<open>None\<close> when the attribute does not exist, and \<open>params\<close> lists the
  names of the parameter tensors registered so far.
\<close>

record 'q LoRALinear =
  in_dim :: nat
  rank :: nat
  alpha :: real
  out_dim :: nat
  use_bias :: bool
  use_dora :: bool
  quantize_base :: bool
  disabled :: bool
  weight :: "'q tens"
  bias :: "vec option"
  dropout_p :: real
  training :: bool
  lora_a :: dense
  lora_b :: dense
  lora_m :: "'q tens option"
  params :: "string list"

text \<open>
  The data model's invariant: every tensor has the shape the dimensions declare, the
  base weight is encoded exactly when the layer was built with \<open>quantize_base\<close>, a bias
  exists exactly when it was built with \<open>use_bias\<close>, and the magnitude exists exactly
  when it was built with \<open>use_dora\<close> (of shape \<open>(1, out_dim)\<close> as constructed, or
  \<open>(out_dim)\<close>, or encoded, after \<open>init_dora\<close>).
\<close>

definition wf_layer :: "'q LoRALinear \<Rightarrow> bool" where
  "wf_layer l \<longleftrightarrow>
     (case weight l of
        Dense w \<Rightarrow> \<not> quantize_base l \<and> is_mat (out_dim l) (in_dim l) w
      | NF4 q \<Rightarrow> quantize_base l)
     \<and> (case bias l of None \<Rightarrow> \<not> use_bias l | Some b \<Rightarrow> use_bias l \<and> length b = out_dim l)
     \<and> is_mat (rank l) (in_dim l) (lora_a l)
     \<and> is_mat (out_dim l) (rank l) (lora_b l)
     \<and> (case lora_m l of
          None \<Rightarrow> \<not> use_dora l
        | Some (Dense m) \<Rightarrow> use_dora l \<and> (is_mat 1 (out_dim l) m \<or> is_vec (out_dim l) m)
        | Some (NF4 q) \<Rightarrow> use_dora l \<and> quantize_base l)"

subsection \<open>Construction\<close>

text \<open>
  The random draws of a construction: the default initialisation of the three linear
  modules the constructor makes, and the Kaiming-uniform draw that
  \<open>_lora_a_init_params\<close> writes over factor A. No property below depends on their
  distribution, so the drawn values are arguments.
\<close>

record draws =
  draw_weight :: "nat \<Rightarrow> nat \<Rightarrow> real"
  draw_bias :: "nat \<Rightarrow> real"
  draw_lora_a :: "nat \<Rightarrow> nat \<Rightarrow> real"
  draw_lora_b :: "nat \<Rightarrow> nat \<Rightarrow> real"
  draw_kaiming :: "nat \<Rightarrow> nat \<Rightarrow> real"

definition create_weight_and_bias ::
  "'q substrate \<Rightarrow> draws \<Rightarrow> nat \<Rightarrow> nat \<Rightarrow> bool \<Rightarrow> bool \<Rightarrow> error + ('q tens \<times> vec option)" where
  "create_weight_and_bias ops rs ind outd usebias quantize =
     (let linear_weight = mk_mat outd ind (draw_weight rs);
          linear_bias = map (draw_bias rs) [0..<outd]
      in case (if \<not> quantize then Inr (Dense linear_weight)
               else (case to_nf4 ops linear_weight of Inl e \<Rightarrow> Inl e | Inr q \<Rightarrow> Inr (NF4 q))) of
           Inl e \<Rightarrow> Inl e
         | Inr w \<Rightarrow>
             if usebias then
               (if quantize then Inl NotImplementedError else Inr (w, Some linear_bias))
             else Inr (w, None))"

definition lora_a_init_params :: "draws \<Rightarrow> dense \<Rightarrow> dense" where
  "lora_a_init_params rs a =
     a\<lparr>rows := map (\<lambda>i. map (draw_kaiming rs i) [0..<width a]) [0..<length (rows a)]\<rparr>"

definition lora_b_init_params :: "dense \<Rightarrow> dense" where
  "lora_b_init_params b = b\<lparr>rows := map (map (\<lambda>v. 0)) (rows b)\<rparr>"

definition dora_m_init_params :: "'q substrate \<Rightarrow> 'q tens \<Rightarrow> error + 'q tens" where
  "dora_m_init_params ops m =
     (case m of
        Dense d \<Rightarrow> Inr (Dense (d\<lparr>rows := map (map (\<lambda>v. 1)) (rows d)\<rparr>))
      | NF4 q \<Rightarrow> nf4_ones ops q)"

definition initialize_parameters ::
  "'q substrate \<Rightarrow> draws \<Rightarrow> 'q LoRALinear \<Rightarrow> error + 'q LoRALinear" where
  "initialize_parameters ops rs l =
     (let l1 = l\<lparr>lora_a := lora_a_init_params rs (lora_a l)\<rparr>;
          l2 = l1\<lparr>lora_b := lora_b_init_params (lora_b l1)\<rparr>
      in if use_dora l2 then
           (case lora_m l2 of
              None \<Rightarrow> Inl AttributeError
            | Some m \<Rightarrow>
                (case dora_m_init_params ops m of
                   Inl e \<Rightarrow> Inl e
                 | Inr m' \<Rightarrow> Inr (l2\<lparr>lora_m := Some m'\<rparr>)))
         else Inr l2)"

text \<open>
  \<open>__init__\<close>. A construction that raises returns the exception together with the
  names of the parameters the object under construction had registered by then; the
  object itself never reaches the caller.
\<close>

definition LoRALinear_init ::
  "'q substrate \<Rightarrow> draws \<Rightarrow> nat \<Rightarrow> nat \<Rightarrow> nat \<Rightarrow> real \<Rightarrow> real \<Rightarrow> bool \<Rightarrow> bool \<Rightarrow> bool
     \<Rightarrow> (error \<times> string list) + 'q LoRALinear" where
  "LoRALinear_init ops rs ind outd rk al dropout_prob usedora usebias quantize =
     (case create_weight_and_bias ops rs ind outd usebias quantize of
        Inl e \<Rightarrow> Inl (e, [])
      | Inr (w, b) \<Rightarrow>
          (let registered = ''weight'' # (case b of None \<Rightarrow> [] | Some bv \<Rightarrow> [''bias''])
           in if dropout_prob < 0 \<or> 1 < dropout_prob then Inl (ValueError, registered)
              else
                (let registered' = registered @ [''lora_a.weight'', ''lora_b.weight'']
                                     @ (if usedora then [''lora_m''] else []);
                     l = \<lparr>in_dim = ind, rank = rk, alpha = al, out_dim = outd,
                          use_bias = usebias, use_dora = usedora, quantize_base = quantize,
                          disabled = False, weight = w, bias = b,
                          dropout_p = dropout_prob, training = True,
                          lora_a = mk_mat rk ind (draw_lora_a rs),
                          lora_b = mk_mat outd rk (draw_lora_b rs),
                          lora_m = (if usedora then Some (Dense (mk_mat 1 outd (\<lambda>i j. 0)))
                                    else None),
                          params = registered'\<rparr>
                 in case initialize_parameters ops rs l of
                      Inl e \<Rightarrow> Inl (e, registered')
                    | Inr l' \<Rightarrow> Inr l')))"

subsection \<open>Adapter parameters\<close>

definition adapter_params :: "'q LoRALinear \<Rightarrow> string list" where
  "adapter_params l =
     (let adapter_params = [''lora_a.weight'', ''lora_b.weight'']
      in if use_dora l then adapter_params @ [''lora_m''] else adapter_params)"

subsection \<open>The DoRA norm and its commit\<close>

text \<open>
  Lines 139 to 149 of \<open>_dora_weight_norm\<close>: the local \<open>weight\<close> (the base weight,
  decoded when it is stored encoded), and the clamped norm as a dense vector, before the
  last line re-encodes it. A state whose weight is encoded although the layer was
  built without \<open>quantize_base\<close> lies outside the invariant \<open>wf_layer\<close>; the model stops
  there with \<open>RuntimeError\<close>.
\<close>

definition dense_weight :: "'q substrate \<Rightarrow> 'q LoRALinear \<Rightarrow> error + dense" where
  "dense_weight ops l =
     (if quantize_base l then dequantize ops (weight l)
      else (case weight l of Dense w \<Rightarrow> Inr w | NF4 q \<Rightarrow> Inl RuntimeError))"

definition dora_norm_dense :: "'q substrate \<Rightarrow> 'q LoRALinear \<Rightarrow> error + dense" where
  "dora_norm_dense ops l =
     (case dense_weight ops l of
        Inl e \<Rightarrow> Inl e
      | Inr w \<Rightarrow>
          if rank l = 0 then Inl ZeroDivisionError
          else
            (case matmul (lora_b l) (lora_a l) of
               Inl e \<Rightarrow> Inl e
             | Inr ba \<Rightarrow>
                 (case tadd w (smul (alpha l / real (rank l)) ba) of
                    Inl e \<Rightarrow> Inl e
                  | Inr result \<Rightarrow>
                      (case linalg_norm_dim1 result of
                         Inl e \<Rightarrow> Inl e
                       | Inr nrm \<Rightarrow> Inr (clamp_min (1 / 1000000) nrm)))))"

definition dora_weight_norm :: "'q substrate \<Rightarrow> 'q LoRALinear \<Rightarrow> error + 'q tens" where
  "dora_weight_norm ops l =
     (case dora_norm_dense ops l of
        Inl e \<Rightarrow> Inl e
      | Inr nrm \<Rightarrow>
          if quantize_base l then
            (case to_nf4 ops nrm of Inl e \<Rightarrow> Inl e | Inr q \<Rightarrow> Inr (NF4 q))
          else Inr (Dense nrm))"

definition init_dora :: "'q substrate \<Rightarrow> 'q LoRALinear \<Rightarrow> error + 'q LoRALinear" where
  "init_dora ops l =
     (case dora_weight_norm ops l of
        Inl e \<Rightarrow> Inl e
      | Inr weight_norm \<Rightarrow>
          (case lora_m l of
             None \<Rightarrow> Inl AttributeError
           | Some m \<Rightarrow> Inr (l\<lparr>lora_m := Some weight_norm\<rparr>)))"

subsection \<open>The forward pass\<close>

text \<open>
  Lines 162 to 165: the base output \<open>out\<close>. As in \<open>dense_weight\<close>, an encoded weight
  in a layer built without \<open>quantize_base\<close> is outside the invariant.
\<close>

definition base_out :: "'q substrate \<Rightarrow> 'q LoRALinear \<Rightarrow> dense \<Rightarrow> error + dense" where
  "base_out ops l x =
     (if quantize_base l then linear_nf4 ops x (weight l)
      else (case weight l of
              Dense w \<Rightarrow> F_linear x w (bias l)
            | NF4 q \<Rightarrow> Inl RuntimeError))"

text \<open>Lines 168 and 169: the low-rank perturbation \<open>lora_out\<close>.\<close>

definition lora_out :: "(nat \<Rightarrow> nat \<Rightarrow> bool) \<Rightarrow> 'q LoRALinear \<Rightarrow> dense \<Rightarrow> error + dense" where
  "lora_out keep l x =
     (case F_linear (dropout (dropout_p l) (training l) keep x) (lora_a l) None of
        Inl e \<Rightarrow> Inl e
      | Inr h \<Rightarrow>
          if rank l = 0 then Inl ZeroDivisionError
          else
            (case F_linear h (lora_b l) None of
               Inl e \<Rightarrow> Inl e
             | Inr hb \<Rightarrow> Inr (smul (alpha l / real (rank l)) hb)))"

text \<open>Line 174: \<open>(self.lora_m / weight_norm).view(1, -1)\<close>.\<close>

definition mag_norm_scale :: "'q substrate \<Rightarrow> 'q tens \<Rightarrow> 'q tens \<Rightarrow> error + dense" where
  "mag_norm_scale ops m weight_norm =
     (case (m, weight_norm) of
        (Dense md, Dense n) \<Rightarrow>
          (case div_bcast md n of Inl e \<Rightarrow> Inl e | Inr s \<Rightarrow> view_1_m1 s)
      | _ \<Rightarrow> nf4_scale ops m weight_norm)"

definition forward ::
  "'q substrate \<Rightarrow> (nat \<Rightarrow> nat \<Rightarrow> bool) \<Rightarrow> 'q LoRALinear \<Rightarrow> dense \<Rightarrow> error + dense" where
  "forward ops keep l x =
     (case base_out ops l x of
        Inl e \<Rightarrow> Inl e
      | Inr out \<Rightarrow>
          if disabled l then Inr out
          else
            (case lora_out keep l x of
               Inl e \<Rightarrow> Inl e
             | Inr lo \<Rightarrow>
                 if use_dora l then
                   (case dora_weight_norm ops l of
                      Inl e \<Rightarrow> Inl e
                    | Inr weight_norm \<Rightarrow>
                        (case lora_m l of
                           None \<Rightarrow> Inl AttributeError
                         | Some m \<Rightarrow>
                             (case mag_norm_scale ops m weight_norm of
                                Inl e \<Rightarrow> Inl e
                              | Inr s \<Rightarrow>
                                  (case tadd out lo of
                                     Inl e \<Rightarrow> Inl e
                                   | Inr y \<Rightarrow> mul_bcast y s))))
                 else tadd out lo))"

subsection \<open>The forward pass with the arithmetic of its last lines as arguments\<close>

text \<open>
  Over the reals \<open>(out + lora_out) * scale\<close> and \<open>out * scale + lora_out * scale\<close> are the
  same number, so no statement about \<^const>\<open>forward\<close> can tell the two groupings apart.
  \<open>forward_with add mul\<close> is the same translation of lines 162 to 177 with the
  entry-wise addition and multiplication of lines 176 and 177 as arguments (a rounded
  addition and multiplication, for one): a statement that holds for every \<open>add\<close> and
  \<open>mul\<close> fixes the order in which the two are applied. \<open>tadd_with (+)\<close> is \<^const>\<open>tadd\<close>,
  \<open>mul_bcast_with (*)\<close> is \<^const>\<open>mul_bcast\<close> and \<open>forward_with (+) (*)\<close> is
  \<^const>\<open>forward\<close> (lemmas \<open>tadd_with_plus\<close>, \<open>mul_bcast_with_times\<close>, \<open>forward_with_real\<close>).
\<close>

definition tadd_with :: "(real \<Rightarrow> real \<Rightarrow> real) \<Rightarrow> dense \<Rightarrow> dense \<Rightarrow> error + dense" where
  "tadd_with add t u =
     (if lead t \<noteq> lead u \<or> width t \<noteq> width u
      then Inl RuntimeError
      else Inr (t\<lparr>rows := map2 (map2 add) (rows t) (rows u)\<rparr>))"

definition mul_bcast_with :: "(real \<Rightarrow> real \<Rightarrow> real) \<Rightarrow> dense \<Rightarrow> dense \<Rightarrow> error + dense" where
  "mul_bcast_with mul y s =
     (case rows s of
        [sv] \<Rightarrow> if lead s \<noteq> [1] \<or> width y \<noteq> width s then Inl RuntimeError
                else Inr \<lparr>lead = (if lead y = [] then [1] else lead y), width = width y,
                          rows = map (\<lambda>r. map2 mul r sv) (rows y)\<rparr>
      | _ \<Rightarrow> Inl RuntimeError)"

definition forward_with ::
  "(real \<Rightarrow> real \<Rightarrow> real) \<Rightarrow> (real \<Rightarrow> real \<Rightarrow> real) \<Rightarrow> 'q substrate \<Rightarrow> (nat \<Rightarrow> nat \<Rightarrow> bool)
     \<Rightarrow> 'q LoRALinear \<Rightarrow> dense \<Rightarrow> error + dense" where
  "forward_with add mul ops keep l x =
     (case base_out ops l x of
        Inl e \<Rightarrow> Inl e
      | Inr out \<Rightarrow>
          if disabled l then Inr out
          else
            (case lora_out keep l x of
               Inl e \<Rightarrow> Inl e
             | Inr lo \<Rightarrow>
                 if use_dora l then
                   (case dora_weight_norm ops l of
                      Inl e \<Rightarrow> Inl e
                    | Inr weight_norm \<Rightarrow>
                        (case lora_m l of
                           None \<Rightarrow> Inl AttributeError
                         | Some m \<Rightarrow>
                             (case mag_norm_scale ops m weight_norm of
                                Inl e \<Rightarrow> Inl e
                              | Inr s \<Rightarrow>
                                  (case tadd_with add out lo of
                                     Inl e \<Rightarrow> Inl e
                                   | Inr y \<Rightarrow> mul_bcast_with mul y s))))
                 else tadd_with add out lo))"

section \<open>The norm as the specification words it\<close>

text \<open>
  The specification defines the combined weight \<open>R = W + (alpha / rank) (B @ A)\<close> entry
  by entry, and the norm of output row \<open>j\<close> as the Euclidean norm of row \<open>j\<close> of \<open>R\<close>
  across the input dimension, clamped below at \<open>1e-6\<close>. These definitions follow those
  words, with sums over index ranges; the theorems compare them with
  \<^const>\<open>dora_weight_norm\<close>, which follows the source.
\<close>

definition entry :: "dense \<Rightarrow> nat \<Rightarrow> nat \<Rightarrow> real" where
  "entry t i j = rows t ! i ! j"

definition spec_combined ::
  "real \<Rightarrow> nat \<Rightarrow> dense \<Rightarrow> dense \<Rightarrow> dense \<Rightarrow> nat \<Rightarrow> nat \<Rightarrow> real" where
  "spec_combined al rk w b a j i =
     entry w j i + (al / real rk) * (\<Sum>k<rk. entry b j k * entry a k i)"

definition spec_dora_norm ::
  "real \<Rightarrow> nat \<Rightarrow> nat \<Rightarrow> dense \<Rightarrow> dense \<Rightarrow> dense \<Rightarrow> nat \<Rightarrow> real" where
  "spec_dora_norm al rk ind w b a j =
     max (1 / 1000000) (sqrt (\<Sum>i<ind. (spec_combined al rk w b a j i)\<^sup>2))"

text \<open>The Euclidean norm of row \<open>j\<close> of the base weight alone.\<close>

definition spec_row_norm :: "nat \<Rightarrow> dense \<Rightarrow> nat \<Rightarrow> real" where
  "spec_row_norm ind w j = sqrt (\<Sum>i<ind. (entry w j i)\<^sup>2)"

text \<open>
  \<open>shaped ld w n t\<close>: the tensor \<open>t\<close> has leading dimensions \<open>ld\<close>, last dimension
  \<open>w\<close> and \<open>n\<close> rows of length \<open>w\<close>.
\<close>

definition shaped :: "nat list \<Rightarrow> nat \<Rightarrow> nat \<Rightarrow> dense \<Rightarrow> bool" where
  "shaped ld w n t \<longleftrightarrow>
     lead t = ld \<and> width t = w \<and> length (rows t) = n \<and> list_all (\<lambda>r. length r = w) (rows t)"

section \<open>Instances for concrete runs\<close>

text \<open>
  Two instances of the encoding, used to run the model on concrete layers. \<open>no_nf4\<close>
  offers no encoding at all (every operation raises); \<open>lossless\<close> encodes a tensor as
  itself, so that decoding returns the tensor that was encoded. Neither is the NF4
  format; they only show that the hypotheses of the theorems below can be met.
\<close>

definition no_nf4 :: "unit substrate" where
  "no_nf4 = \<lparr>to_nf4 = (\<lambda>d. Inl RuntimeError),
             dequantize = (\<lambda>t. Inl RuntimeError),
             linear_nf4 = (\<lambda>x t. Inl RuntimeError),
             nf4_scale = (\<lambda>m n. Inl RuntimeError),
             nf4_ones = (\<lambda>q. Inl RuntimeError)\<rparr>"

definition untag :: "dense tens \<Rightarrow> dense" where
  "untag t = (case t of Dense d \<Rightarrow> d | NF4 q \<Rightarrow> q)"

definition lossless :: "dense substrate" where
  "lossless = \<lparr>to_nf4 = (\<lambda>d. Inr d),
               dequantize = (\<lambda>t. Inr (untag t)),
               linear_nf4 = (\<lambda>x t. F_linear x (untag t) None),
               nf4_scale = (\<lambda>m n. case div_bcast (untag m) (untag n) of
                                      Inl e \<Rightarrow> Inl e | Inr s \<Rightarrow> view_1_m1 s),
               nf4_ones = (\<lambda>q. Inr (NF4 (q\<lparr>rows := map (map (\<lambda>v. 1)) (rows q)\<rparr>)))\<rparr>"

definition keep_all :: "nat \<Rightarrow> nat \<Rightarrow> bool" where
  "keep_all i j = True"

definition keep_none :: "nat \<Rightarrow> nat \<Rightarrow> bool" where
  "keep_none i j = False"

definition const_draws :: "real \<Rightarrow> draws" where
  "const_draws c = \<lparr>draw_weight = (\<lambda>i j. c), draw_bias = (\<lambda>i. c), draw_lora_a = (\<lambda>i j. c),
                    draw_lora_b = (\<lambda>i j. c), draw_kaiming = (\<lambda>i j. c)\<rparr>"

text \<open>
  The layer of the specification's end-to-end example, with the rows of factor B as
  argument: \<open>in_dim = 4\<close>, \<open>out_dim = 2\<close>, \<open>rank = 1\<close>, \<open>alpha = 1.0\<close>, no dropout, no DoRA,
  no bias, no compression.
\<close>

definition example_layer :: "vec list \<Rightarrow> unit LoRALinear" where
  "example_layer b =
     \<lparr>in_dim = 4, rank = 1, alpha = 1, out_dim = 2, use_bias = False, use_dora = False,
      quantize_base = False, disabled = False,
      weight = Dense \<lparr>lead = [2], width = 4, rows = [[1, 0, 0, 0], [0, 1, 0, 0]]\<rparr>,
      bias = None, dropout_p = 0, training = True,
      lora_a = \<lparr>lead = [1], width = 4, rows = [[1, 0, 0, 0]]\<rparr>,
      lora_b = \<lparr>lead = [2], width = 1, rows = b\<rparr>,
      lora_m = None,
      params = [''weight'', ''lora_a.weight'', ''lora_b.weight'']\<rparr>"

text \<open>
  A DoRA layer with \<open>in_dim = 2\<close>, \<open>out_dim = 2\<close>, \<open>rank = 1\<close>, \<open>alpha = 1\<close>, factor
  \<open>A = [[1, 0]]\<close> and the magnitude all ones, as the constructor leaves it, with the rows
  of the base weight and of factor B as arguments.
\<close>

definition dora_layer :: "vec list \<Rightarrow> vec list \<Rightarrow> unit LoRALinear" where
  "dora_layer w b =
     \<lparr>in_dim = 2, rank = 1, alpha = 1, out_dim = 2, use_bias = False, use_dora = True,
      quantize_base = False, disabled = False,
      weight = Dense \<lparr>lead = [2], width = 2, rows = w\<rparr>,
      bias = None, dropout_p = 0, training = True,
      lora_a = \<lparr>lead = [1], width = 2, rows = [[1, 0]]\<rparr>,
      lora_b = \<lparr>lead = [2], width = 1, rows = b\<rparr>,
      lora_m = Some (Dense \<lparr>lead = [1], width = 2, rows = [[1, 1]]\<rparr>),
      params = [''weight'', ''lora_a.weight'', ''lora_b.weight'', ''lora_m'']\<rparr>"

text \<open>
  The layers that two constructions with every draw equal to \<open>2\<close> return (lemmas
  \<open>fresh_dora_init\<close> and \<open>fresh_plain_init\<close>): one with DoRA and all dimensions \<open>1\<close>, one
  without DoRA, with a bias and dropout probability \<open>1/2\<close>; and an input for the first.
\<close>

definition fresh_dora :: "unit LoRALinear" where
  "fresh_dora =
     \<lparr>in_dim = 1, rank = 1, alpha = 1, out_dim = 1, use_bias = False, use_dora = True,
      quantize_base = False, disabled = False,
      weight = Dense \<lparr>lead = [1], width = 1, rows = [[2]]\<rparr>,
      bias = None, dropout_p = 0, training = True,
      lora_a = \<lparr>lead = [1], width = 1, rows = [[2]]\<rparr>,
      lora_b = \<lparr>lead = [1], width = 1, rows = [[0]]\<rparr>,
      lora_m = Some (Dense \<lparr>lead = [1], width = 1, rows = [[1]]\<rparr>),
      params = [''weight'', ''lora_a.weight'', ''lora_b.weight'', ''lora_m'']\<rparr>"

definition fresh_plain :: "unit LoRALinear" where
  "fresh_plain =
     \<lparr>in_dim = 2, rank = 1, alpha = 1, out_dim = 2, use_bias = True, use_dora = False,
      quantize_base = False, disabled = False,
      weight = Dense \<lparr>lead = [2], width = 2, rows = [[2, 2], [2, 2]]\<rparr>,
      bias = Some [2, 2], dropout_p = 1 / 2, training = True,
      lora_a = \<lparr>lead = [1], width = 2, rows = [[2, 2]]\<rparr>,
      lora_b = \<lparr>lead = [2], width = 1, rows = [[0], [0]]\<rparr>,
      lora_m = None,
      params = [''weight'', ''bias'', ''lora_a.weight'', ''lora_b.weight'']\<rparr>"

definition one_input :: dense where
  "one_input = \<lparr>lead = [1], width = 1, rows = [[1]]\<rparr>"

text \<open>
  The same DoRA layer with its base weight encoded by \<open>lossless\<close>, and the layer a
  construction with \<open>quantize_base\<close> and every draw equal to \<open>2\<close> returns under
  \<open>lossless\<close> (lemma \<open>fresh_q_init\<close>).
\<close>

definition dora_layer_q :: "vec list \<Rightarrow> vec list \<Rightarrow> dense LoRALinear" where
  "dora_layer_q w b =
     \<lparr>in_dim = 2, rank = 1, alpha = 1, out_dim = 2, use_bias = False, use_dora = True,
      quantize_base = True, disabled = False,
      weight = NF4 \<lparr>lead = [2], width = 2, rows = w\<rparr>,
      bias = None, dropout_p = 0, training = True,
      lora_a = \<lparr>lead = [1], width = 2, rows = [[1, 0]]\<rparr>,
      lora_b = \<lparr>lead = [2], width = 1, rows = b\<rparr>,
      lora_m = Some (Dense \<lparr>lead = [1], width = 2, rows = [[1, 1]]\<rparr>),
      params = [''weight'', ''lora_a.weight'', ''lora_b.weight'', ''lora_m'']\<rparr>"

definition fresh_q :: "dense LoRALinear" where
  "fresh_q =
     \<lparr>in_dim = 2, rank = 1, alpha = 1, out_dim = 2, use_bias = False, use_dora = False,
      quantize_base = True, disabled = False,
      weight = NF4 \<lparr>lead = [2], width = 2, rows = [[2, 2], [2, 2]]\<rparr>,
      bias = None, dropout_p = 0, training = True,
      lora_a = \<lparr>lead = [1], width = 2, rows = [[2, 2]]\<rparr>,
      lora_b = \<lparr>lead = [2], width = 1, rows = [[0], [0]]\<rparr>,
      lora_m = None,
      params = [''weight'', ''lora_a.weight'', ''lora_b.weight'']\<rparr>"

text \<open>
  Two more instances. \<open>lossy\<close> is \<open>lossless\<close> with an encoder that rounds every entry
  down to an integer; \<open>no_division\<close> is \<open>lossless\<close> with a tensor class that does not
  support division. And a DoRA layer with \<open>out_dim = 0\<close>, which the constructor accepts.
\<close>

definition lossy :: "dense substrate" where
  "lossy = lossless\<lparr>to_nf4 := (\<lambda>d. Inr (d\<lparr>rows := map (map (\<lambda>v. real_of_int \<lfloor>v\<rfloor>)) (rows d)\<rparr>))\<rparr>"



text \<open>A batch of two inputs for the layers with \<open>in_dim = 2\<close>.\<close>

definition batch2 :: dense where
  "batch2 = \<lparr>lead = [2], width = 2, rows = [[1, 1], [2, 0]]\<rparr>"

section \<open>Evaluation lemmas\<close>

lemma upt_0_2: "[0..<2] = [0, 1]"
  by (simp add: upt_rec)

section \<open>Tensor operations, entry by entry\<close>

lemma sum_list_nth_sum: "sum_list xs = (\<Sum>i<length xs. xs ! i)"
  by (simp add: sum_list_sum_nth atLeast0LessThan)

lemma dot_sum: "length u = n \<Longrightarrow> length v = n \<Longrightarrow> dot u v = (\<Sum>k<n. u ! k * v ! k)"
  by (simp add: dot_def sum_list_nth_sum)

lemma euclid_sum: "length r = n \<Longrightarrow> euclid r = sqrt (\<Sum>i<n. (r ! i)\<^sup>2)"
  by (simp add: euclid_def sum_list_nth_sum)

lemma is_mat_rows:
  assumes "is_mat r c t"
  shows "length (rows t) = r" and "i < r \<Longrightarrow> length (rows t ! i) = c"
    and "lead t = [r]" and "width t = c"
  using assms by (auto simp: is_mat_def wf_dense_def list_all_length)

lemma matmul_entries:
  assumes b: "is_mat n q b" and a: "is_mat q c a"
  shows "\<exists>p. matmul b a = Inr p \<and> is_mat n c p
           \<and> (\<forall>j<n. \<forall>i<c. entry p j i = (\<Sum>k<q. entry b j k * entry a k i))"
proof -
  let ?p = "\<lparr>lead = lead b, width = width a,
              rows = map (\<lambda>r. map (\<lambda>j. dot r (column a j)) [0..<width a]) (rows b)\<rparr>"
  have run: "matmul b a = Inr ?p"
    using is_mat_rows [OF b] is_mat_rows [OF a] by (simp add: matmul_def)
  have shape: "is_mat n c ?p"
    using is_mat_rows [OF b] is_mat_rows [OF a]
    by (simp add: is_mat_def wf_dense_def list_all_iff)
  have "entry ?p j i = (\<Sum>k<q. entry b j k * entry a k i)" if "j < n" "i < c" for j i
  proof -
    have "entry ?p j i = dot (rows b ! j) (column a i)"
      using that is_mat_rows [OF b] is_mat_rows [OF a] by (simp add: entry_def)
    also have "\<dots> = (\<Sum>k<q. (rows b ! j) ! k * (column a i) ! k)"
      using that is_mat_rows [OF b] is_mat_rows [OF a]
      by (intro dot_sum) (simp_all add: column_def)
    also have "\<dots> = (\<Sum>k<q. entry b j k * entry a k i)"
      using is_mat_rows [OF a] by (intro sum.cong) (simp_all add: column_def entry_def)
    finally show ?thesis .
  qed
  with run shape show ?thesis by blast
qed


lemma combined_entries:
  assumes w: "is_mat n c w" and p: "is_mat n c p"
  shows "\<exists>res. tadd w (smul s p) = Inr res \<and> is_mat n c res
           \<and> (\<forall>j<n. \<forall>i<c. entry res j i = entry w j i + s * entry p j i)"
proof -
  let ?res = "w\<lparr>rows := map2 (map2 (+)) (rows w) (rows (smul s p))\<rparr>"
  have run: "tadd w (smul s p) = Inr ?res"
    using is_mat_rows [OF w] is_mat_rows [OF p] by (simp add: tadd_def smul_def)
  have shape: "is_mat n c ?res"
    using is_mat_rows [OF w] is_mat_rows [OF p]
    by (simp add: is_mat_def wf_dense_def list_all_length smul_def)
  have "entry ?res j i = entry w j i + s * entry p j i" if "j < n" "i < c" for j i
    using that is_mat_rows [OF w] is_mat_rows [OF p] by (simp add: entry_def smul_def)
  with run shape show ?thesis by blast
qed

lemma clamped_norm_entries:
  assumes "is_mat n c res"
  shows "linalg_norm_dim1 res = Inr (vec1d (map euclid (rows res)))"
    and "clamp_min f (vec1d (map euclid (rows res)))
           = vec1d (map (\<lambda>j. max f (sqrt (\<Sum>i<c. (entry res j i)\<^sup>2))) [0..<n])"
proof -
  show "linalg_norm_dim1 res = Inr (vec1d (map euclid (rows res)))"
    using is_mat_rows [OF assms] by (simp add: linalg_norm_dim1_def)
  have "map (max f) (map euclid (rows res))
          = map (\<lambda>j. max f (sqrt (\<Sum>i<c. (entry res j i)\<^sup>2))) [0..<n]"
    using is_mat_rows [OF assms]
    by (intro nth_equalityI) (simp_all add: euclid_sum [of _ c] entry_def)
  then show "clamp_min f (vec1d (map euclid (rows res)))
           = vec1d (map (\<lambda>j. max f (sqrt (\<Sum>i<c. (entry res j i)\<^sup>2))) [0..<n])"
    using is_mat_rows [OF assms] by (simp add: clamp_min_def vec1d_def)
qed

lemma dora_norm_dense_spec:
  assumes w: "dense_weight ops l = Inr w" "is_mat (out_dim l) (in_dim l) w"
    and a: "is_mat (rank l) (in_dim l) (lora_a l)"
    and b: "is_mat (out_dim l) (rank l) (lora_b l)"
    and rk: "0 < rank l"
  shows "dora_norm_dense ops l
           = Inr (vec1d (map (spec_dora_norm (alpha l) (rank l) (in_dim l) w (lora_b l) (lora_a l))
                    [0..<out_dim l]))"
proof -
  obtain p where p: "matmul (lora_b l) (lora_a l) = Inr p" "is_mat (out_dim l) (in_dim l) p"
    "\<And>j i. j < out_dim l \<Longrightarrow> i < in_dim l
       \<Longrightarrow> entry p j i = (\<Sum>k<rank l. entry (lora_b l) j k * entry (lora_a l) k i)"
    using matmul_entries [OF b a] by blast
  obtain res where res: "tadd w (smul (alpha l / real (rank l)) p) = Inr res"
    "is_mat (out_dim l) (in_dim l) res"
    "\<And>j i. j < out_dim l \<Longrightarrow> i < in_dim l
       \<Longrightarrow> entry res j i = entry w j i + (alpha l / real (rank l)) * entry p j i"
    using combined_entries [OF w(2) p(2)] by blast
  have ent: "entry res j i = spec_combined (alpha l) (rank l) w (lora_b l) (lora_a l) j i"
    if "j < out_dim l" "i < in_dim l" for j i
    using that res(3) p(3) by (simp add: spec_combined_def)
  have "dora_norm_dense ops l = Inr (clamp_min (1 / 1000000) (vec1d (map euclid (rows res))))"
    using w(1) rk p(1) res(1) clamped_norm_entries(1) [OF res(2)]
    by (simp add: dora_norm_dense_def)
  also have "clamp_min (1 / 1000000) (vec1d (map euclid (rows res)))
      = vec1d (map (\<lambda>j. max (1 / 1000000) (sqrt (\<Sum>i<in_dim l. (entry res j i)\<^sup>2))) [0..<out_dim l])"
    by (rule clamped_norm_entries(2) [OF res(2)])
  also have "\<dots> = vec1d (map (spec_dora_norm (alpha l) (rank l) (in_dim l) w (lora_b l) (lora_a l))
                    [0..<out_dim l])"
  proof -
    have "max (1 / 1000000) (sqrt (\<Sum>i<in_dim l. (entry res j i)\<^sup>2))
            = spec_dora_norm (alpha l) (rank l) (in_dim l) w (lora_b l) (lora_a l) j"
      if "j < out_dim l" for j
      using that ent by (simp add: spec_dora_norm_def)
    then have "map (\<lambda>j. max (1 / 1000000) (sqrt (\<Sum>i<in_dim l. (entry res j i)\<^sup>2))) [0..<out_dim l]
        = map (spec_dora_norm (alpha l) (rank l) (in_dim l) w (lora_b l) (lora_a l)) [0..<out_dim l]"
      by simp
    then show ?thesis by (rule arg_cong)
  qed
  finally show ?thesis .
qed

lemma wf_layer_parts:
  assumes "wf_layer l"
  shows "is_mat (rank l) (in_dim l) (lora_a l)" and "is_mat (out_dim l) (rank l) (lora_b l)"
    and "\<not> quantize_base l \<Longrightarrow> \<exists>w. weight l = Dense w \<and> is_mat (out_dim l) (in_dim l) w"
    and "quantize_base l \<Longrightarrow> \<exists>q. weight l = NF4 q"
    and "bias l = Some b \<Longrightarrow> length b = out_dim l"
  using assms by (auto simp: wf_layer_def split: tens.splits option.splits)

lemma dense_weight_plain:
  assumes "wf_layer l" and "\<not> quantize_base l"
  shows "\<exists>w. weight l = Dense w \<and> dense_weight ops l = Inr w \<and> is_mat (out_dim l) (in_dim l) w"
  using wf_layer_parts(3) [OF assms] assms(2) by (auto simp: dense_weight_def)

lemma clamp_min_floor: "list_all (list_all ((\<le>) c)) (rows (clamp_min c t))"
  by (simp add: clamp_min_def list_all_iff)

lemma dora_norm_dense_floor:
  assumes "dora_norm_dense ops l = Inr n"
  shows "list_all (list_all ((\<le>) (1 / 1000000))) (rows n)"
proof -
  from assms obtain nrm where "n = clamp_min (1 / 1000000) nrm"
    by (auto simp: dora_norm_dense_def split: sum.splits if_splits)
  then show ?thesis by (simp only: clamp_min_floor)
qed

lemma zero_factor_entries:
  assumes "is_mat n k b" and "list_all (list_all (\<lambda>v. v = 0)) (rows b)"
    and "j < n" and "i < k"
  shows "entry b j i = 0"
  using assms is_mat_rows [OF assms(1)] by (simp add: entry_def list_all_length)

lemma spec_dora_norm_zero_b:
  assumes "is_mat n k b" and "list_all (list_all (\<lambda>v. v = 0)) (rows b)" and "j < n"
  shows "spec_dora_norm al k ind w b a j = max (1 / 1000000) (spec_row_norm ind w j)"
  using zero_factor_entries [OF assms(1,2,3)]
  by (simp add: spec_dora_norm_def spec_combined_def spec_row_norm_def)

section \<open>The forward pass, step by step\<close>

lemma shaped_rows:
  assumes "shaped ld w n t"
  shows "lead t = ld" and "width t = w" and "length (rows t) = n"
    and "i < n \<Longrightarrow> length (rows t ! i) = w"
  using assms by (auto simp: shaped_def list_all_length)

lemma F_linear_shaped:
  assumes w: "is_mat n c w" and x: "width x = c"
    and b: "case b of None \<Rightarrow> True | Some bv \<Rightarrow> length bv = n"
  shows "\<exists>y. F_linear x w b = Inr y \<and> shaped (lead x) n (length (rows x)) y"
  using is_mat_rows [OF w] x b
  by (auto simp: F_linear_def shaped_def list_all_iff split: option.splits)

lemma dropout_shape:
  "lead (dropout p t k x) = lead x" "width (dropout p t k x) = width x"
  "length (rows (dropout p t k x)) = length (rows x)"
  by (simp_all add: dropout_def)

lemma smul_shaped: "shaped ld w n t \<Longrightarrow> shaped ld w n (smul c t)"
  by (simp add: shaped_def smul_def list_all_iff)

lemma smul_entry: "shaped ld w n t \<Longrightarrow> i < n \<Longrightarrow> j < w \<Longrightarrow> entry (smul c t) i j = c * entry t i j"
  by (simp add: shaped_def smul_def entry_def list_all_length)

lemma lora_out_shaped:
  assumes a: "is_mat (rank l) (in_dim l) (lora_a l)" and b: "is_mat (out_dim l) (rank l) (lora_b l)"
    and rk: "0 < rank l" and x: "width x = in_dim l"
  shows "\<exists>lo. lora_out keep l x = Inr lo \<and> shaped (lead x) (out_dim l) (length (rows x)) lo"
proof -
  let ?dx = "dropout (dropout_p l) (training l) keep x"
  obtain h where h: "F_linear ?dx (lora_a l) None = Inr h"
    "shaped (lead x) (rank l) (length (rows x)) h"
    using F_linear_shaped [OF a, of ?dx None] x by (auto simp: dropout_shape)
  obtain hb where hb: "F_linear h (lora_b l) None = Inr hb"
    "shaped (lead x) (out_dim l) (length (rows x)) hb"
    using F_linear_shaped [OF b, of h None] shaped_rows [OF h(2)] by auto
  show ?thesis
    using h(1) hb rk by (simp add: lora_out_def smul_shaped)
qed

lemma tadd_shaped:
  assumes t: "shaped ld w n t" and u: "shaped ld w n u"
  shows "\<exists>y. tadd t u = Inr y \<and> shaped ld w n y
           \<and> (\<forall>i<n. \<forall>j<w. entry y i j = entry t i j + entry u i j)"
  using shaped_rows [OF t] shaped_rows [OF u]
  by (simp add: tadd_def shaped_def entry_def list_all_length)

lemma mul_bcast_shaped:
  assumes y: "shaped ld w n y" and s: "is_mat 1 w s"
  shows "\<exists>z. mul_bcast y s = Inr z \<and> shaped (if ld = [] then [1] else ld) w n z
           \<and> (\<forall>i<n. \<forall>j<w. entry z i j = entry y i j * entry s 0 j)"
proof -
  obtain sv where sv: "rows s = [sv]" "length sv = w"
    using is_mat_rows [OF s] by (cases "rows s") auto
  show ?thesis
    using shaped_rows [OF y] is_mat_rows(3,4) [OF s] sv
    by (simp add: mul_bcast_def shaped_def entry_def list_all_length)
qed

lemma one_row:
  assumes "is_mat 1 c m \<or> is_vec c m"
  shows "\<exists>mv. rows m = [mv] \<and> length mv = c \<and> width m = c"
  using assms by (cases "rows m") (auto simp: is_mat_def is_vec_def wf_dense_def)

lemma mag_norm_scale_dense:
  assumes m: "is_mat 1 c md \<or> is_vec c md" and n: "is_vec c n" and c: "0 < c"
  shows "\<exists>s. mag_norm_scale ops (Dense md) (Dense n) = Inr s \<and> is_mat 1 c s
           \<and> (\<forall>j<c. entry s 0 j = entry md 0 j / entry n 0 j)"
proof -
  obtain mv where mv: "rows md = [mv]" "length mv = c" "width md = c"
    using one_row [OF m] by blast
  obtain nv where nv: "rows n = [nv]" "length nv = c" "width n = c"
    using one_row [of c n] n by blast
  have "lead n = []" using n by (simp add: is_vec_def)
  then show ?thesis
    using mv nv c
    by (auto simp: mag_norm_scale_def div_bcast_def view_1_m1_def is_mat_def wf_dense_def entry_def)
qed

lemma base_out_plain:
  assumes wf: "wf_layer l" and plain: "\<not> quantize_base l" and x: "width x = in_dim l"
  shows "\<exists>out. base_out ops l x = Inr out \<and> shaped (lead x) (out_dim l) (length (rows x)) out"
proof -
  obtain w where w: "weight l = Dense w" "is_mat (out_dim l) (in_dim l) w"
    using wf_layer_parts(3) [OF wf plain] by blast
  have "case bias l of None \<Rightarrow> True | Some bv \<Rightarrow> length bv = out_dim l"
    using wf_layer_parts(5) [OF wf] by (simp split: option.splits)
  from F_linear_shaped [OF w(2) x this] show ?thesis
    using w(1) plain by (simp add: base_out_def)
qed

lemma dora_weight_norm_plain:
  assumes wf: "wf_layer l" and rk: "0 < rank l" and plain: "\<not> quantize_base l"
  shows "\<exists>n. dora_weight_norm ops l = Inr (Dense n) \<and> is_vec (out_dim l) n"
proof -
  obtain w where w: "dense_weight ops l = Inr w" "is_mat (out_dim l) (in_dim l) w"
    using dense_weight_plain [OF wf plain] by blast
  have "dora_norm_dense ops l
          = Inr (vec1d (map (spec_dora_norm (alpha l) (rank l) (in_dim l) w (lora_b l) (lora_a l))
                   [0..<out_dim l]))"
    using w wf_layer_parts(1,2) [OF wf] rk by (rule dora_norm_dense_spec)
  with plain show ?thesis
    by (simp add: dora_weight_norm_def is_vec_def wf_dense_def vec1d_def)
qed

lemma lora_m_plain:
  assumes wf: "wf_layer l" and dora: "use_dora l" and plain: "\<not> quantize_base l"
  shows "\<exists>md. lora_m l = Some (Dense md) \<and> (is_mat 1 (out_dim l) md \<or> is_vec (out_dim l) md)"
  using assms by (auto simp: wf_layer_def split: option.splits tens.splits)

lemma forward_dora_core:
  assumes wf: "wf_layer l" and dora: "use_dora l" and en: "\<not> disabled l"
    and rk: "0 < rank l" and x: "width x = in_dim l"
    and out: "base_out ops l x = Inr out"
    and oshape: "shaped (lead x) (out_dim l) (length (rows x)) out"
    and m: "lora_m l = Some m" and wn: "dora_weight_norm ops l = Inr wn"
    and s: "mag_norm_scale ops m wn = Inr s" and sshape: "is_mat 1 (out_dim l) s"
  shows "\<exists>lo y. lora_out keep l x = Inr lo \<and> forward ops keep l x = Inr y
           \<and> shaped (if lead x = [] then [1] else lead x) (out_dim l) (length (rows x)) y
           \<and> (\<forall>i<length (rows x). \<forall>j<out_dim l.
                 entry y i j = (entry out i j + entry lo i j) * entry s 0 j)"
proof -
  obtain lo where lo: "lora_out keep l x = Inr lo"
    "shaped (lead x) (out_dim l) (length (rows x)) lo"
    using lora_out_shaped [OF wf_layer_parts(1,2) [OF wf] rk x] by blast
  obtain y0 where y0: "tadd out lo = Inr y0" "shaped (lead x) (out_dim l) (length (rows x)) y0"
    "\<And>i j. i < length (rows x) \<Longrightarrow> j < out_dim l \<Longrightarrow> entry y0 i j = entry out i j + entry lo i j"
    using tadd_shaped [OF oshape lo(2)] by blast
  obtain y where y: "mul_bcast y0 s = Inr y"
    "shaped (if lead x = [] then [1] else lead x) (out_dim l) (length (rows x)) y"
    "\<And>i j. i < length (rows x) \<Longrightarrow> j < out_dim l \<Longrightarrow> entry y i j = entry y0 i j * entry s 0 j"
    using mul_bcast_shaped [OF y0(2) sshape] by blast
  have "forward ops keep l x = Inr y"
    using out en lo(1) dora wn m s y0(1) y(1) by (simp add: forward_def)
  with lo(1) y(2) y(3) y0(3) show ?thesis by simp
qed








section \<open>The constructed layer\<close>

lemma lora_b_init_mk_mat: "lora_b_init_params (mk_mat r c f) = mk_mat r c (\<lambda>i j. 0)"
  by (simp add: lora_b_init_params_def mk_mat_def comp_def)

lemma lora_a_init_mk_mat: "lora_a_init_params rs (mk_mat r c f) = mk_mat r c (draw_kaiming rs)"
  by (simp add: lora_a_init_params_def mk_mat_def)

lemma ones_mk_mat:
  "(mk_mat r c f)\<lparr>rows := map (map (\<lambda>v. 1)) (rows (mk_mat r c f))\<rparr> = mk_mat r c (\<lambda>i j. 1)"
  by (simp add: mk_mat_def comp_def)

lemma is_mat_mk_mat: "is_mat r c (mk_mat r c f)"
  by (simp add: is_mat_def wf_dense_def mk_mat_def list_all_iff)

lemma entry_mk_mat: "i < r \<Longrightarrow> j < c \<Longrightarrow> entry (mk_mat r c f) i j = f i j"
  by (simp add: entry_def mk_mat_def)

lemma init_fields:
  assumes "LoRALinear_init ops rs ind outd rk al p usedora usebias quantize = Inr l"
  shows "in_dim l = ind \<and> rank l = rk \<and> alpha l = al \<and> out_dim l = outd
       \<and> use_bias l = usebias \<and> use_dora l = usedora \<and> quantize_base l = quantize
       \<and> \<not> disabled l \<and> training l \<and> dropout_p l = p \<and> 0 \<le> p \<and> p \<le> 1
       \<and> \<not> (usebias \<and> quantize)
       \<and> (if quantize
          then \<exists>q. weight l = NF4 q \<and> to_nf4 ops (mk_mat outd ind (draw_weight rs)) = Inr q
          else weight l = Dense (mk_mat outd ind (draw_weight rs)))
       \<and> bias l = (if usebias then Some (map (draw_bias rs) [0..<outd]) else None)
       \<and> lora_a l = mk_mat rk ind (draw_kaiming rs)
       \<and> lora_b l = mk_mat outd rk (\<lambda>i j. 0)
       \<and> lora_m l = (if usedora then Some (Dense (mk_mat 1 outd (\<lambda>i j. 1))) else None)
       \<and> params l = ''weight'' # (if usebias then [''bias''] else [])
                      @ [''lora_a.weight'', ''lora_b.weight'']
                      @ (if usedora then [''lora_m''] else [])"
  using assms
  by (auto simp: LoRALinear_init_def create_weight_and_bias_def initialize_parameters_def
      dora_m_init_params_def lora_b_init_mk_mat lora_a_init_mk_mat ones_mk_mat Let_def
      split: sum.splits if_splits prod.splits option.splits)

lemma init_wf:
  assumes "LoRALinear_init ops rs ind outd rk al p usedora usebias quantize = Inr l"
  shows "wf_layer l"
  using init_fields [OF assms]
  by (auto simp: wf_layer_def is_mat_mk_mat split: if_splits)

lemma sum_list_all_zero: "list_all (\<lambda>x. f x = (0::real)) xs \<Longrightarrow> sum_list (map f xs) = 0"
  by (induction xs) auto

lemma dot_zero:
  assumes "list_all (\<lambda>v. v = 0) z"
  shows "dot u z = 0"
  unfolding dot_def using assms
  by (intro sum_list_all_zero) (auto simp: list_all_iff dest: set_zip_rightD)

lemma lora_out_zero_b:
  assumes a: "is_mat (rank l) (in_dim l) (lora_a l)" and b: "is_mat (out_dim l) (rank l) (lora_b l)"
    and zero: "list_all (list_all (\<lambda>v. v = 0)) (rows (lora_b l))"
    and rk: "0 < rank l" and x: "width x = in_dim l"
  shows "lora_out keep l x
           = Inr \<lparr>lead = lead x, width = out_dim l,
                  rows = replicate (length (rows x)) (replicate (out_dim l) 0)\<rparr>"
proof -
  let ?dx = "dropout (dropout_p l) (training l) keep x"
  let ?h = "\<lparr>lead = lead ?dx, width = length (rows (lora_a l)),
              rows = map (\<lambda>r. map (dot r) (rows (lora_a l))) (rows ?dx)\<rparr>"
  have h: "F_linear ?dx (lora_a l) None = Inr ?h"
    using is_mat_rows [OF a] x by (simp add: F_linear_def dropout_shape)
  have zrow: "map (dot r) (rows (lora_b l)) = replicate (out_dim l) 0" for r
    using zero is_mat_rows(1) [OF b]
    by (intro nth_equalityI) (simp_all add: dot_zero list_all_length)
  have "F_linear ?h (lora_b l) None
          = Inr \<lparr>lead = lead x, width = out_dim l,
                 rows = replicate (length (rows x)) (replicate (out_dim l) 0)\<rparr>"
    using is_mat_rows [OF b] is_mat_rows [OF a]
    by (simp add: F_linear_def dropout_shape zrow map_replicate_const)
  with h rk show ?thesis
    by (simp add: lora_out_def smul_def)
qed

lemma tadd_zero:
  assumes "shaped ld w n t"
  shows "tadd t \<lparr>lead = ld, width = w, rows = replicate n (replicate w 0)\<rparr> = Inr t"
proof -
  have "map2 (map2 (+)) (rows t) (replicate n (replicate w 0)) = rows t"
    using shaped_rows [OF assms]
    by (intro nth_equalityI) (simp_all add: list_eq_iff_nth_eq)
  then show ?thesis
    using shaped_rows(1,2) [OF assms] by (simp add: tadd_def)
qed

lemma dora_norm_dense_zero_b:
  assumes w: "dense_weight ops l = Inr w" "is_mat (out_dim l) (in_dim l) w"
    and a: "is_mat (rank l) (in_dim l) (lora_a l)"
    and b: "is_mat (out_dim l) (rank l) (lora_b l)"
    and rk: "0 < rank l"
    and zero: "list_all (list_all (\<lambda>v. v = 0)) (rows (lora_b l))"
  shows "dora_norm_dense ops l
     = Inr (vec1d (map (\<lambda>j. max (1 / 1000000) (spec_row_norm (in_dim l) w j)) [0..<out_dim l]))"
proof -
  have "map (spec_dora_norm (alpha l) (rank l) (in_dim l) w (lora_b l) (lora_a l)) [0..<out_dim l]
          = map (\<lambda>j. max (1 / 1000000) (spec_row_norm (in_dim l) w j)) [0..<out_dim l]"
    using spec_dora_norm_zero_b [OF b zero] by simp
  with dora_norm_dense_spec [OF w a b rk] show ?thesis by simp
qed

lemma mk_mat_zero_rows: "list_all (list_all (\<lambda>v. v = 0)) (rows (mk_mat r c (\<lambda>i j. 0)))"
  by (simp add: mk_mat_def list_all_iff)

section \<open>Runs of the example layers\<close>

lemma upt_0_1: "[0..<1] = [0]"
  by (simp add: upt_rec)

lemma fresh_dora_init:
  "LoRALinear_init no_nf4 (const_draws 2) 1 1 1 1 0 True False False = Inr fresh_dora"
  by (simp add: LoRALinear_init_def create_weight_and_bias_def initialize_parameters_def
      dora_m_init_params_def lora_a_init_params_def lora_b_init_params_def mk_mat_def
      const_draws_def fresh_dora_def Let_def upt_0_1)

lemma fresh_plain_init:
  "LoRALinear_init no_nf4 (const_draws 2) 2 2 1 1 (1 / 2) False True False = Inr fresh_plain"
  by (simp add: LoRALinear_init_def create_weight_and_bias_def initialize_parameters_def
      dora_m_init_params_def lora_a_init_params_def lora_b_init_params_def mk_mat_def
      const_draws_def fresh_plain_def Let_def upt_0_1 upt_0_2)


lemma dora_layer_wf: "wf_layer (dora_layer [[a, b], [c, d]] [[e], [f]])"
  by (simp add: wf_layer_def dora_layer_def is_mat_def wf_dense_def)

lemma dora_layer_dense_weight:
  "dense_weight no_nf4 (dora_layer w b) = Inr \<lparr>lead = [2], width = 2, rows = w\<rparr>"
  by (simp add: dense_weight_def dora_layer_def)

lemma two_sum: "(\<Sum>i<2. f i) = f 0 + f (1::nat)"
  by (simp add: numeral_2_eq_2)

lemma dora_layer_norm_run:
  "dora_weight_norm no_nf4 (dora_layer [[a, b], [c, d]] [[e], [f]])
     = Inr (Dense (vec1d [max (1 / 1000000) (sqrt ((a + e)\<^sup>2 + b\<^sup>2)),
                          max (1 / 1000000) (sqrt ((c + f)\<^sup>2 + d\<^sup>2))]))"
  by (simp add: dora_weight_norm_def dora_norm_dense_def dense_weight_def dora_layer_def
      matmul_def column_def dot_def smul_def tadd_def linalg_norm_dim1_def euclid_def
      clamp_min_def vec1d_def upt_0_2)

lemma fresh_q_init:
  "LoRALinear_init lossless (const_draws 2) 2 2 1 1 0 False False True = Inr fresh_q"
  by (simp add: LoRALinear_init_def create_weight_and_bias_def initialize_parameters_def
      dora_m_init_params_def lora_a_init_params_def lora_b_init_params_def mk_mat_def
      const_draws_def fresh_q_def lossless_def Let_def upt_0_1 upt_0_2)

lemma dora_layer_q_wf: "wf_layer (dora_layer_q [[a, b], [c, d]] [[e], [f]])"
  by (simp add: wf_layer_def dora_layer_q_def is_mat_def wf_dense_def)

lemma dora_layer_q_dense_weight:
  "dense_weight lossless (dora_layer_q w b) = Inr \<lparr>lead = [2], width = 2, rows = w\<rparr>"
  by (simp add: dense_weight_def dora_layer_q_def lossless_def untag_def)




lemma q_fresh_base: "base_out lossless fresh_q batch2 = Inr \<lparr>lead = [2], width = 2, rows = [[4, 4], [4, 4]]\<rparr>"
    by (simp add: base_out_def fresh_q_def batch2_def F_linear_def dot_def lossless_def untag_def)


lemma dora_layer_q_dense_weight_lossy:
  "dense_weight lossy (dora_layer_q w b) = Inr \<lparr>lead = [2], width = 2, rows = w\<rparr>"
  by (simp add: dense_weight_def dora_layer_q_def lossy_def lossless_def untag_def)

lemma dora_layer_q_lossy_run:
  "dora_norm_dense lossy (dora_layer_q [[0, 0], [0, 1]] [[0], [0]])
     = Inr (vec1d [1 / 1000000, 1])
   \<and> dora_weight_norm lossy (dora_layer_q [[0, 0], [0, 1]] [[0], [0]]) = Inr (NF4 (vec1d [0, 1]))"
  by (simp add: dora_weight_norm_def dora_norm_dense_def dense_weight_def dora_layer_q_def
      lossy_def lossless_def untag_def
      matmul_def column_def dot_def smul_def tadd_def linalg_norm_dim1_def euclid_def
      clamp_min_def vec1d_def upt_0_2)

section \<open>Adapter parameter enumeration\<close>

text \<open>
  C9: for every layer, \<open>adapter_params\<close> returns exactly the names of the factor-A
  weight and the factor-B weight, in this order, followed by the name of the magnitude
  vector if and only if DoRA is enabled.
\<close>

theorem adapter_params_names:
  "adapter_params l =
     [''lora_a.weight'', ''lora_b.weight''] @ (if use_dora l then [''lora_m''] else [])
   \<and> (''lora_m'' \<in> set (adapter_params l)) = use_dora l
   \<and> length (adapter_params l) = (if use_dora l then 3 else 2)"
  by (simp add: adapter_params_def)

theorem adapter_params_names_witness:
  "adapter_params (dora_layer [[1, 0], [0, 1]] [[0], [0]]) = [''lora_a.weight'', ''lora_b.weight'', ''lora_m'']
   \<and> adapter_params (example_layer [[0], [0]]) = [''lora_a.weight'', ''lora_b.weight'']"
  using adapter_params_names [of "dora_layer [[1, 0], [0, 1]] [[0], [0]]"]
    adapter_params_names [of "example_layer [[0], [0]]"]
  by (simp add: dora_layer_def example_layer_def)

section \<open>The end-to-end example\<close>

text \<open>
  C8: on the example layer with factor \<open>B = [[0], [0]]\<close> the forward output on
  \<open>x = [1, 1, 1, 1]\<close> is \<open>[1, 1]\<close>; with \<open>B = [[1], [1]]\<close> the perturbation is \<open>[1, 1]\<close> and
  the forward output is \<open>[2, 2]\<close>, whatever the dropout draws are.
\<close>

theorem forward_example:
  "forward no_nf4 keep (example_layer [[0], [0]]) (vec1d [1, 1, 1, 1]) = Inr (vec1d [1, 1])
   \<and> lora_out keep (example_layer [[1], [1]]) (vec1d [1, 1, 1, 1]) = Inr (vec1d [1, 1])
   \<and> forward no_nf4 keep (example_layer [[1], [1]]) (vec1d [1, 1, 1, 1]) = Inr (vec1d [2, 2])"
  by (simp add: forward_def base_out_def lora_out_def example_layer_def vec1d_def F_linear_def
      dropout_def dot_def smul_def tadd_def)

theorem forward_example_witness:
  "forward no_nf4 keep_none (example_layer [[1], [1]]) (vec1d [1, 1, 1, 1]) = Inr (vec1d [2, 2])"
  using forward_example [of keep_none] by simp

section \<open>Construction errors\<close>

text \<open>
  C5, as the claim states it, fails when the encoder raises: \<open>_create_weight_and_bias\<close>
  encodes the fresh weight (line 103) before it looks at the bias flag (lines 105 to
  109), so the exception of the encoder is the one that leaves the constructor.
\<close>

theorem init_quantized_bias_encoder_counterexample:
  "to_nf4 no_nf4 (mk_mat 2 4 (draw_weight (const_draws 1))) = Inl RuntimeError
   \<and> LoRALinear_init no_nf4 (const_draws 1) 4 2 1 1 0 False True True = Inl (RuntimeError, [])
   \<and> LoRALinear_init no_nf4 (const_draws 1) 4 2 1 1 0 False True True
       \<noteq> Inl (NotImplementedError, [])"
  by (simp add: LoRALinear_init_def create_weight_and_bias_def Let_def no_nf4_def)

text \<open>
  C5, amended: constructing the layer with both \<open>quantize_base\<close> and \<open>use_bias\<close> set
  always fails, and no parameter has been registered when it does. The exception is
  \<open>NotImplementedError\<close> whenever the encoder has returned, and the encoder's own
  exception otherwise.
\<close>

theorem init_quantized_bias_fails:
  "LoRALinear_init ops rs ind outd rk al p usedora True True
     = (case to_nf4 ops (mk_mat outd ind (draw_weight rs)) of
          Inl e \<Rightarrow> Inl (e, [])
        | Inr q \<Rightarrow> Inl (NotImplementedError, []))
   \<and> (\<exists>e. LoRALinear_init ops rs ind outd rk al p usedora True True = Inl (e, []))
   \<and> (\<forall>q. to_nf4 ops (mk_mat outd ind (draw_weight rs)) = Inr q \<longrightarrow>
          LoRALinear_init ops rs ind outd rk al p usedora True True
            = Inl (NotImplementedError, []))"
  by (auto simp: LoRALinear_init_def create_weight_and_bias_def Let_def split: sum.splits)

theorem init_quantized_bias_fails_witness:
  "to_nf4 lossless (mk_mat 2 4 (draw_weight (const_draws 1))) = Inr (mk_mat 2 4 (\<lambda>i j. 1))
   \<and> LoRALinear_init lossless (const_draws 1) 4 2 1 1 0 False True True
       = Inl (NotImplementedError, [])"
  using init_quantized_bias_fails [of lossless "const_draws 1" 4 2 1 1 0 False]
  by (simp add: lossless_def const_draws_def)

section \<open>The disabled layer\<close>

text \<open>
  C4: when the \<open>disabled\<close> flag is set the forward output is the base output, for every
  input: two layers that agree on the base weight, the bias and the compression flag
  return the same result, whatever their factors, their dropout probability and mode,
  their magnitude and the dropout draws are.
\<close>

theorem forward_disabled:
  assumes "disabled l1" and "disabled l2"
    and "weight l1 = weight l2" and "bias l1 = bias l2"
    and "quantize_base l1 = quantize_base l2"
  shows "forward ops keep1 l1 x = base_out ops l1 x
       \<and> forward ops keep1 l1 x = forward ops keep2 l2 x"
proof -
  have own: "forward ops keep l x = base_out ops l x" if "disabled l" for keep l
    using that by (cases "base_out ops l x") (simp_all add: forward_def)
  have "base_out ops l1 x = base_out ops l2 x"
    using assms(3-5) by (simp add: base_out_def cong: tens.case_cong)
  with own [OF assms(1)] own [OF assms(2)] show ?thesis by simp
qed

theorem forward_disabled_witness:
  "forward no_nf4 keep_all ((example_layer [[1], [1]])\<lparr>disabled := True\<rparr>) (vec1d [1, 1, 1, 1])
     = Inr (vec1d [1, 1])
   \<and> forward no_nf4 keep_none
        ((example_layer [[5], [7]])\<lparr>disabled := True, dropout_p := 1 / 2\<rparr>) (vec1d [1, 1, 1, 1])
     = Inr (vec1d [1, 1])"
proof -
  let ?l1 = "(example_layer [[1], [1]])\<lparr>disabled := True\<rparr>"
  let ?l2 = "(example_layer [[5], [7]])\<lparr>disabled := True, dropout_p := 1 / 2\<rparr>"
  have base: "base_out no_nf4 ?l1 (vec1d [1, 1, 1, 1]) = Inr (vec1d [1, 1])"
    by (simp add: example_layer_def base_out_def F_linear_def vec1d_def dot_def)
  have "forward no_nf4 keep_all ?l1 (vec1d [1, 1, 1, 1]) = base_out no_nf4 ?l1 (vec1d [1, 1, 1, 1])
      \<and> forward no_nf4 keep_all ?l1 (vec1d [1, 1, 1, 1])
          = forward no_nf4 keep_none ?l2 (vec1d [1, 1, 1, 1])"
    by (rule forward_disabled) (simp_all add: example_layer_def)
  then have "forward no_nf4 keep_all ?l1 (vec1d [1, 1, 1, 1]) = Inr (vec1d [1, 1])"
    and "forward no_nf4 keep_none ?l2 (vec1d [1, 1, 1, 1]) = Inr (vec1d [1, 1])"
    using base by metis+
  then show ?thesis by simp
qed

section \<open>The forward pass right after construction\<close>

text \<open>
  C1, as the claim states it, fails with DoRA enabled: the constructor leaves the
  magnitude at all ones, so the forward pass divides the base output by the norm of the
  base weight's rows. On the layer below the base output is \<open>2\<close> and the forward output
  is \<open>1\<close>.
\<close>

theorem forward_after_init_dora_counterexample:
  "LoRALinear_init no_nf4 (const_draws 2) 1 1 1 1 0 True False False = Inr fresh_dora
   \<and> base_out no_nf4 fresh_dora one_input = Inr \<lparr>lead = [1], width = 1, rows = [[2]]\<rparr>
   \<and> forward no_nf4 keep_all fresh_dora one_input = Inr \<lparr>lead = [1], width = 1, rows = [[1]]\<rparr>
   \<and> forward no_nf4 keep_all fresh_dora one_input \<noteq> base_out no_nf4 fresh_dora one_input"
proof -
  have b: "base_out no_nf4 fresh_dora one_input = Inr \<lparr>lead = [1], width = 1, rows = [[2]]\<rparr>"
    by (simp add: base_out_def fresh_dora_def one_input_def F_linear_def dot_def)
  have f: "forward no_nf4 keep_all fresh_dora one_input
             = Inr \<lparr>lead = [1], width = 1, rows = [[1]]\<rparr>"
    by (simp add: forward_def base_out_def lora_out_def dora_weight_norm_def dora_norm_dense_def
        dense_weight_def mag_norm_scale_def fresh_dora_def one_input_def F_linear_def dot_def
        dropout_def smul_def tadd_def matmul_def column_def linalg_norm_dim1_def euclid_def
        clamp_min_def vec1d_def div_bcast_def view_1_m1_def mul_bcast_def upt_0_1)
  from fresh_dora_init b f show ?thesis by simp
qed

text \<open>
  C1, amended: for every construction that returns, with a positive rank, and every
  input of last dimension \<open>in_dim\<close>, the low-rank perturbation is the zero tensor; with
  DoRA off the forward output is the base output; with DoRA on (plain base weight,
  positive \<open>out_dim\<close>) entry \<open>(i, j)\<close> of the forward output is entry \<open>(i, j)\<close> of the base
  output times \<open>1 / max 1e-6 (norm of row j of the base weight)\<close>. For an encoded base
  weight the base output is the encoding's to give, and is assumed to have been returned
  in the shape of the batch.
\<close>

theorem forward_after_init:
  assumes init: "LoRALinear_init ops rs ind outd rk al p usedora usebias quantize = Inr l"
    and rk: "0 < rk" and x: "width x = ind"
    and sub: "quantize \<Longrightarrow>
       \<exists>out. base_out ops l x = Inr out \<and> shaped (lead x) outd (length (rows x)) out"
  shows "\<exists>out. base_out ops l x = Inr out
         \<and> lora_out keep l x
             = Inr \<lparr>lead = lead x, width = outd,
                    rows = replicate (length (rows x)) (replicate outd 0)\<rparr>
         \<and> (\<not> usedora \<longrightarrow> forward ops keep l x = Inr out)
         \<and> (usedora \<and> \<not> quantize \<and> 0 < outd \<longrightarrow>
              (\<exists>y. forward ops keep l x = Inr y
                 \<and> shaped (if lead x = [] then [1] else lead x) outd (length (rows x)) y
                 \<and> (\<forall>i<length (rows x). \<forall>j<outd.
                       entry y i j
                         = entry out i j
                           * (1 / max (1 / 1000000)
                                  (spec_row_norm ind (mk_mat outd ind (draw_weight rs)) j)))))"
proof -
  note f = init_fields [OF init]
  note wf = init_wf [OF init]
  from f have dims: "in_dim l = ind" "out_dim l = outd" "rank l = rk" "\<not> disabled l"
    "use_dora l = usedora" "quantize_base l = quantize"
    by simp_all
  note parts = wf_layer_parts(1,2) [OF wf]
  have zero: "list_all (list_all (\<lambda>v. v = 0)) (rows (lora_b l))"
    using f by (simp add: mk_mat_zero_rows)
  have rk': "0 < rank l" and x': "width x = in_dim l"
    using rk x dims by simp_all
  have lo: "lora_out keep l x
             = Inr \<lparr>lead = lead x, width = outd,
                    rows = replicate (length (rows x)) (replicate outd 0)\<rparr>"
    using lora_out_zero_b [OF parts zero rk' x', of keep] dims by simp
  obtain out where out: "base_out ops l x = Inr out"
    "shaped (lead x) (out_dim l) (length (rows x)) out"
  proof (cases quantize)
    case True
    with sub dims that show ?thesis by auto
  next
    case False
    with base_out_plain [OF wf _ x', of ops] dims that show ?thesis by auto
  qed
  have off: "forward ops keep l x = Inr out" if "\<not> usedora"
    using that out(1) dims lo tadd_zero [OF out(2)] by (simp add: forward_def)
  have on: "\<exists>y. forward ops keep l x = Inr y
                 \<and> shaped (if lead x = [] then [1] else lead x) outd (length (rows x)) y
                 \<and> (\<forall>i<length (rows x). \<forall>j<outd.
                       entry y i j
                         = entry out i j
                           * (1 / max (1 / 1000000)
                                  (spec_row_norm ind (mk_mat outd ind (draw_weight rs)) j)))"
    if h: "usedora \<and> \<not> quantize \<and> 0 < outd"
  proof -
    let ?w = "mk_mat outd ind (draw_weight rs)"
    let ?md = "mk_mat 1 outd (\<lambda>i j. 1)"
    let ?n = "vec1d (map (\<lambda>j. max (1 / 1000000) (spec_row_norm ind ?w j)) [0..<outd])"
    have dora: "use_dora l" and plain: "\<not> quantize_base l" and od: "0 < out_dim l"
      using h dims by simp_all
    have w: "dense_weight ops l = Inr ?w" "is_mat (out_dim l) (in_dim l) ?w"
      using f h by (simp_all add: dense_weight_def is_mat_mk_mat)
    have m: "lora_m l = Some (Dense ?md)"
      using f h by simp
    have "dora_norm_dense ops l = Inr ?n"
      using dora_norm_dense_zero_b [OF w parts rk' zero] dims by simp
    then have wn: "dora_weight_norm ops l = Inr (Dense ?n)"
      using plain by (simp add: dora_weight_norm_def)
    have nshape: "is_vec (out_dim l) ?n"
      using dims by (simp add: is_vec_def wf_dense_def vec1d_def)
    have mshape: "is_mat 1 (out_dim l) ?md \<or> is_vec (out_dim l) ?md"
      using dims by (simp add: is_mat_mk_mat)
    obtain s where s: "mag_norm_scale ops (Dense ?md) (Dense ?n) = Inr s"
      "is_mat 1 (out_dim l) s"
      "\<forall>j<out_dim l. entry s 0 j = entry ?md 0 j / entry ?n 0 j"
      using mag_norm_scale_dense [OF mshape nshape od] by blast
    have sj: "entry s 0 j = 1 / max (1 / 1000000) (spec_row_norm ind ?w j)" if "j < outd" for j
      using that s(3) dims by (simp add: entry_mk_mat) (simp add: entry_def vec1d_def)
    from forward_dora_core [OF wf dora \<open>\<not> disabled l\<close> rk' x' out m wn s(1,2), of keep] lo
    obtain y where y: "forward ops keep l x = Inr y"
      "shaped (if lead x = [] then [1] else lead x) (out_dim l) (length (rows x)) y"
      "\<forall>i<length (rows x). \<forall>j<out_dim l.
          entry y i j
            = (entry out i j
               + entry \<lparr>lead = lead x, width = outd,
                        rows = replicate (length (rows x)) (replicate outd 0)\<rparr> i j)
              * entry s 0 j"
      by auto
    have "entry y i j = entry out i j * (1 / max (1 / 1000000) (spec_row_norm ind ?w j))"
      if "i < length (rows x)" "j < outd" for i j
      using that y(3) sj dims by (simp add: entry_def)
    with y(1,2) dims show ?thesis by auto
  qed
  from out(1) lo off on show ?thesis by blast
qed

theorem forward_after_init_witness:
  "(LoRALinear_init no_nf4 (const_draws 2) 2 2 1 1 (1 / 2) False True False = Inr fresh_plain
   \<and> (0::nat) < 1 \<and> width batch2 = 2
   \<and> lora_out keep_none fresh_plain batch2
       = Inr \<lparr>lead = [2], width = 2, rows = [[0, 0], [0, 0]]\<rparr>
   \<and> base_out no_nf4 fresh_plain batch2 = Inr \<lparr>lead = [2], width = 2, rows = [[6, 6], [6, 6]]\<rparr>
   \<and> forward no_nf4 keep_none fresh_plain batch2
       = Inr \<lparr>lead = [2], width = 2, rows = [[6, 6], [6, 6]]\<rparr>)
   \<and> (LoRALinear_init lossless (const_draws 2) 2 2 1 1 0 False False True = Inr fresh_q
   \<and> base_out lossless fresh_q batch2 = Inr \<lparr>lead = [2], width = 2, rows = [[4, 4], [4, 4]]\<rparr>
   \<and> shaped (lead batch2) 2 (length (rows batch2))
        \<lparr>lead = [2], width = 2, rows = [[4, 4], [4, 4]]\<rparr>
   \<and> forward lossless keep_none fresh_q batch2
       = Inr \<lparr>lead = [2], width = 2, rows = [[4, 4], [4, 4]]\<rparr>)"
proof -
  have plain:
    "LoRALinear_init no_nf4 (const_draws 2) 2 2 1 1 (1 / 2) False True False = Inr fresh_plain
   \<and> (0::nat) < 1 \<and> width batch2 = 2
   \<and> lora_out keep_none fresh_plain batch2
       = Inr \<lparr>lead = [2], width = 2, rows = [[0, 0], [0, 0]]\<rparr>
   \<and> base_out no_nf4 fresh_plain batch2 = Inr \<lparr>lead = [2], width = 2, rows = [[6, 6], [6, 6]]\<rparr>
   \<and> forward no_nf4 keep_none fresh_plain batch2
       = Inr \<lparr>lead = [2], width = 2, rows = [[6, 6], [6, 6]]\<rparr>"
  proof -
    have b: "base_out no_nf4 fresh_plain batch2
               = Inr \<lparr>lead = [2], width = 2, rows = [[6, 6], [6, 6]]\<rparr>"
      by (simp add: base_out_def fresh_plain_def batch2_def F_linear_def dot_def)
    have w: "width batch2 = 2" by (simp add: batch2_def)
    from forward_after_init [OF fresh_plain_init _ w, of keep_none] b
    have "lora_out keep_none fresh_plain batch2
            = Inr \<lparr>lead = [2], width = 2, rows = [[0, 0], [0, 0]]\<rparr>
        \<and> forward no_nf4 keep_none fresh_plain batch2
            = Inr \<lparr>lead = [2], width = 2, rows = [[6, 6], [6, 6]]\<rparr>"
      by (simp add: batch2_def numeral_2_eq_2)
    with fresh_plain_init b w show ?thesis by simp
  qed
  have encoded:
    "LoRALinear_init lossless (const_draws 2) 2 2 1 1 0 False False True = Inr fresh_q
   \<and> base_out lossless fresh_q batch2 = Inr \<lparr>lead = [2], width = 2, rows = [[4, 4], [4, 4]]\<rparr>
   \<and> shaped (lead batch2) 2 (length (rows batch2))
        \<lparr>lead = [2], width = 2, rows = [[4, 4], [4, 4]]\<rparr>
   \<and> forward lossless keep_none fresh_q batch2
       = Inr \<lparr>lead = [2], width = 2, rows = [[4, 4], [4, 4]]\<rparr>"
  proof -
    have b: "base_out lossless fresh_q batch2
               = Inr \<lparr>lead = [2], width = 2, rows = [[4, 4], [4, 4]]\<rparr>"
      by (simp add: base_out_def fresh_q_def batch2_def F_linear_def dot_def lossless_def untag_def)
    have sh: "shaped (lead batch2) 2 (length (rows batch2))
          \<lparr>lead = [2], width = 2, rows = [[4, 4], [4, 4]]\<rparr>"
      by (simp add: shaped_def batch2_def)
    have w: "width batch2 = 2" by (simp add: batch2_def)
    from forward_after_init [OF fresh_q_init _ w, of keep_none] b sh
    have "forward lossless keep_none fresh_q batch2
            = Inr \<lparr>lead = [2], width = 2, rows = [[4, 4], [4, 4]]\<rparr>"
      by simp
    with fresh_q_init b sh show ?thesis by simp
  qed
  from plain encoded show ?thesis ..
qed

section \<open>The forward pass with DoRA\<close>




text \<open>
  The grouping can be observed: with a multiplication that rounds down to an integer,
  entry \<open>(0, 0)\<close> of the forward output on this layer is \<open>\<lfloor>(1 + 1) * 1/2\<rfloor> = 1\<close>, where
  multiplying first and adding afterwards would give \<open>\<lfloor>1 * 1/2\<rfloor> + \<lfloor>1 * 1/2\<rfloor> = 0\<close>.
\<close>

lemma forward_with_grouping_observable:
  "forward_with (+) (\<lambda>a b. real_of_int \<lfloor>a * b\<rfloor>) no_nf4 keep_none
      (dora_layer [[1, 0], [0, 1]] [[1], [0]]) batch2
     = Inr \<lparr>lead = [2], width = 2, rows = [[1, 1], [2, 0]]\<rparr>
   \<and> real_of_int \<lfloor>(1::real) * (1 / 2)\<rfloor> + real_of_int \<lfloor>(1::real) * (1 / 2)\<rfloor> = 0"
  by (simp add: forward_with_def base_out_def lora_out_def dora_weight_norm_def
      dora_norm_dense_def dense_weight_def mag_norm_scale_def dora_layer_def batch2_def
      F_linear_def dot_def dropout_def smul_def tadd_def tadd_with_def mul_bcast_with_def matmul_def
      column_def linalg_norm_dim1_def euclid_def clamp_min_def vec1d_def div_bcast_def
      view_1_m1_def upt_0_2)

section \<open>The combined-weight norm\<close>

text \<open>
  C3: on a layer that satisfies the invariant, with a positive rank, whose base weight
  \<open>W\<close> (decoded when it is stored encoded) has shape \<open>out_dim \<times> in_dim\<close>,
  \<open>_dora_weight_norm\<close> computes the vector of length \<open>out_dim\<close> whose entry \<open>j\<close> is the
  Euclidean norm, across the input dimension, of row \<open>j\<close> of
  \<open>R = W + (alpha / rank) (B @ A)\<close>, clamped below at \<open>1e-6\<close>; it returns this vector as
  it is for a plain base weight and hands it to the encoder for an encoded one.
\<close>

theorem dora_weight_norm_spec:
  assumes wf: "wf_layer l" and rk: "0 < rank l"
    and w: "dense_weight ops l = Inr w" and shape: "is_mat (out_dim l) (in_dim l) w"
  shows "dora_weight_norm ops l =
     (if quantize_base l then
        (case to_nf4 ops (vec1d (map (spec_dora_norm (alpha l) (rank l) (in_dim l) w
                                        (lora_b l) (lora_a l)) [0..<out_dim l])) of
           Inl e \<Rightarrow> Inl e | Inr q \<Rightarrow> Inr (NF4 q))
      else Inr (Dense (vec1d (map (spec_dora_norm (alpha l) (rank l) (in_dim l) w
                                     (lora_b l) (lora_a l)) [0..<out_dim l]))))
     \<and> is_vec (out_dim l) (vec1d (map (spec_dora_norm (alpha l) (rank l) (in_dim l) w
                                     (lora_b l) (lora_a l)) [0..<out_dim l]))
     \<and> (if quantize_base l then dequantize ops (weight l) = Inr w else weight l = Dense w)"
proof -
  have "dora_norm_dense ops l
          = Inr (vec1d (map (spec_dora_norm (alpha l) (rank l) (in_dim l) w (lora_b l) (lora_a l))
                   [0..<out_dim l]))"
    using w shape wf_layer_parts(1,2) [OF wf] rk by (rule dora_norm_dense_spec)
  moreover have "if quantize_base l then dequantize ops (weight l) = Inr w else weight l = Dense w"
    using w by (auto simp: dense_weight_def split: tens.splits if_splits)
  ultimately show ?thesis
    by (simp add: dora_weight_norm_def is_vec_def wf_dense_def vec1d_def)
qed

theorem dora_weight_norm_spec_witness:
  "(wf_layer (dora_layer [[1, 0], [0, 1]] [[1], [0]])
   \<and> 0 < rank (dora_layer [[1, 0], [0, 1]] [[1], [0]])
   \<and> dense_weight no_nf4 (dora_layer [[1, 0], [0, 1]] [[1], [0]])
       = Inr \<lparr>lead = [2], width = 2, rows = [[1, 0], [0, 1]]\<rparr>
   \<and> is_mat 2 2 \<lparr>lead = [2], width = 2, rows = [[1, 0], [0, 1]]\<rparr>
   \<and> dora_weight_norm no_nf4 (dora_layer [[1, 0], [0, 1]] [[1], [0]]) = Inr (Dense (vec1d [2, 1])))
   \<and> (wf_layer (dora_layer_q [[1, 0], [0, 1]] [[1], [0]])
   \<and> 0 < rank (dora_layer_q [[1, 0], [0, 1]] [[1], [0]])
   \<and> dense_weight lossless (dora_layer_q [[1, 0], [0, 1]] [[1], [0]])
       = Inr \<lparr>lead = [2], width = 2, rows = [[1, 0], [0, 1]]\<rparr>
   \<and> dora_weight_norm lossless (dora_layer_q [[1, 0], [0, 1]] [[1], [0]])
       = Inr (NF4 (vec1d [2, 1])))"
proof -
  have plain:
    "wf_layer (dora_layer [[1, 0], [0, 1]] [[1], [0]])
   \<and> 0 < rank (dora_layer [[1, 0], [0, 1]] [[1], [0]])
   \<and> dense_weight no_nf4 (dora_layer [[1, 0], [0, 1]] [[1], [0]])
       = Inr \<lparr>lead = [2], width = 2, rows = [[1, 0], [0, 1]]\<rparr>
   \<and> is_mat 2 2 \<lparr>lead = [2], width = 2, rows = [[1, 0], [0, 1]]\<rparr>
   \<and> dora_weight_norm no_nf4 (dora_layer [[1, 0], [0, 1]] [[1], [0]]) = Inr (Dense (vec1d [2, 1]))"
  proof -
    let ?l = "dora_layer [[1, 0], [0, 1]] [[1], [0]]"
    let ?w = "\<lparr>lead = [2], width = 2, rows = [[1, 0], [0, 1]]\<rparr>"
    have wf: "wf_layer ?l" by (rule dora_layer_wf)
    have w: "dense_weight no_nf4 ?l = Inr ?w" by (rule dora_layer_dense_weight)
    have shape: "is_mat (out_dim ?l) (in_dim ?l) ?w"
      by (simp add: dora_layer_def is_mat_def wf_dense_def)
    have rk: "0 < rank ?l"
      by (simp add: dora_layer_def)
    have "map (spec_dora_norm (alpha ?l) (rank ?l) (in_dim ?l) ?w (lora_b ?l) (lora_a ?l))
            [0..<out_dim ?l] = [2, 1]"
      by (simp add: dora_layer_def upt_0_2 spec_dora_norm_def spec_combined_def entry_def two_sum)
    with dora_weight_norm_spec [OF wf rk w shape] have
      "dora_weight_norm no_nf4 ?l = Inr (Dense (vec1d [2, 1]))"
      by (simp add: dora_layer_def)
    with wf w shape rk show ?thesis by (simp add: dora_layer_def)
  qed
  have encoded:
    "wf_layer (dora_layer_q [[1, 0], [0, 1]] [[1], [0]])
   \<and> 0 < rank (dora_layer_q [[1, 0], [0, 1]] [[1], [0]])
   \<and> dense_weight lossless (dora_layer_q [[1, 0], [0, 1]] [[1], [0]])
       = Inr \<lparr>lead = [2], width = 2, rows = [[1, 0], [0, 1]]\<rparr>
   \<and> dora_weight_norm lossless (dora_layer_q [[1, 0], [0, 1]] [[1], [0]])
       = Inr (NF4 (vec1d [2, 1]))"
  proof -
    let ?l = "dora_layer_q [[1, 0], [0, 1]] [[1], [0]]"
    let ?w = "\<lparr>lead = [2], width = 2, rows = [[1, 0], [0, 1]]\<rparr>"
    have wf: "wf_layer ?l" by (rule dora_layer_q_wf)
    have w: "dense_weight lossless ?l = Inr ?w" by (rule dora_layer_q_dense_weight)
    have shape: "is_mat (out_dim ?l) (in_dim ?l) ?w"
      by (simp add: dora_layer_q_def is_mat_def wf_dense_def)
    have rk: "0 < rank ?l"
      by (simp add: dora_layer_q_def)
    have "map (spec_dora_norm (alpha ?l) (rank ?l) (in_dim ?l) ?w (lora_b ?l) (lora_a ?l))
            [0..<out_dim ?l] = [2, 1]"
      by (simp add: dora_layer_q_def upt_0_2 spec_dora_norm_def spec_combined_def entry_def two_sum)
    with dora_weight_norm_spec [OF wf rk w shape] have
      "dora_weight_norm lossless ?l = Inr (NF4 (vec1d [2, 1]))"
      by (simp add: dora_layer_q_def lossless_def)
    with wf w rk show ?thesis by simp
  qed
  from plain encoded show ?thesis ..
qed

text \<open>
  C7, as the claim states it, fails for a compressed base weight: what
  \<open>_dora_weight_norm\<close> returns there is the encoder's image of the clamped vector, and an
  encoder that loses precision can take the floor \<open>1e-6\<close> of an all-zero row to \<open>0\<close>.
\<close>

theorem dora_weight_norm_encoded_counterexample:
  "wf_layer (dora_layer_q [[0, 0], [0, 1]] [[0], [0]])
   \<and> dora_weight_norm lossy (dora_layer_q [[0, 0], [0, 1]] [[0], [0]]) = Inr (NF4 (vec1d [0, 1]))
   \<and> dequantize lossy (NF4 (vec1d [0, 1])) = Inr (vec1d [0, 1])
   \<and> \<not> list_all (list_all ((\<le>) (1 / 1000000))) (rows (vec1d [0, 1]))"
  using dora_layer_q_lossy_run dora_layer_q_wf [of 0 0 0 1 0 0]
  by (simp add: lossy_def lossless_def untag_def vec1d_def)

text \<open>
  C7, amended: whatever the base weight and the factors are, every entry of the clamped
  norm vector that \<open>_dora_weight_norm\<close> computes (its lines 139 to 149,
  \<^const>\<open>dora_norm_dense\<close>) is at least \<open>1e-6\<close>, all-zero rows included. For a plain base
  weight this vector is what is returned; for a compressed base weight what is returned
  is the encoder's image of this very vector. On a layer that satisfies the invariant,
  with a positive rank, the clamped vector is computed whenever the base weight is plain
  or has been decoded in the right shape.
\<close>

theorem dora_weight_norm_floor:
  "(\<forall>t. dora_weight_norm ops l = Inr t \<longrightarrow>
      (\<exists>n. dora_norm_dense ops l = Inr n
         \<and> list_all (list_all ((\<le>) (1 / 1000000))) (rows n)
         \<and> (case t of
              Dense d \<Rightarrow> \<not> quantize_base l \<and> d = n
            | NF4 q \<Rightarrow> quantize_base l \<and> to_nf4 ops n = Inr q)))
   \<and> (wf_layer l \<and> 0 < rank l \<and> \<not> quantize_base l \<longrightarrow>
        (\<exists>n. dora_weight_norm ops l = Inr (Dense n) \<and> is_vec (out_dim l) n
           \<and> list_all (list_all ((\<le>) (1 / 1000000))) (rows n)))
   \<and> (\<forall>w. wf_layer l \<and> 0 < rank l \<and> dense_weight ops l = Inr w
          \<and> is_mat (out_dim l) (in_dim l) w \<longrightarrow>
        (\<exists>n. dora_norm_dense ops l = Inr n \<and> is_vec (out_dim l) n
           \<and> list_all (list_all ((\<le>) (1 / 1000000))) (rows n)))"
proof (intro conjI allI impI)
  fix t assume t: "dora_weight_norm ops l = Inr t"
  then obtain n where n: "dora_norm_dense ops l = Inr n"
    by (auto simp: dora_weight_norm_def split: sum.splits)
  note fl = dora_norm_dense_floor [OF n]
  have "case t of
          Dense d \<Rightarrow> \<not> quantize_base l \<and> d = n
        | NF4 q \<Rightarrow> quantize_base l \<and> to_nf4 ops n = Inr q"
    using t n by (auto simp: dora_weight_norm_def split: sum.splits if_splits)
  with n fl show "\<exists>n. dora_norm_dense ops l = Inr n
         \<and> list_all (list_all ((\<le>) (1 / 1000000))) (rows n)
         \<and> (case t of
              Dense d \<Rightarrow> \<not> quantize_base l \<and> d = n
            | NF4 q \<Rightarrow> quantize_base l \<and> to_nf4 ops n = Inr q)"
    by blast
next
  assume h: "wf_layer l \<and> 0 < rank l \<and> \<not> quantize_base l"
  then obtain n where n: "dora_weight_norm ops l = Inr (Dense n)" "is_vec (out_dim l) n"
    using dora_weight_norm_plain [of l ops] by blast
  then have "dora_norm_dense ops l = Inr n"
    using h by (auto simp: dora_weight_norm_def split: sum.splits)
  from dora_norm_dense_floor [OF this] n
  show "\<exists>n. dora_weight_norm ops l = Inr (Dense n) \<and> is_vec (out_dim l) n
           \<and> list_all (list_all ((\<le>) (1 / 1000000))) (rows n)"
    by blast
next
  fix w assume h: "wf_layer l \<and> 0 < rank l \<and> dense_weight ops l = Inr w
          \<and> is_mat (out_dim l) (in_dim l) w"
  then have "dora_norm_dense ops l
          = Inr (vec1d (map (spec_dora_norm (alpha l) (rank l) (in_dim l) w (lora_b l) (lora_a l))
                   [0..<out_dim l]))"
    by (intro dora_norm_dense_spec wf_layer_parts) simp_all
  moreover have "is_vec (out_dim l)
      (vec1d (map (spec_dora_norm (alpha l) (rank l) (in_dim l) w (lora_b l) (lora_a l))
                   [0..<out_dim l]))"
    by (simp add: is_vec_def wf_dense_def vec1d_def)
  ultimately show "\<exists>n. dora_norm_dense ops l = Inr n \<and> is_vec (out_dim l) n
           \<and> list_all (list_all ((\<le>) (1 / 1000000))) (rows n)"
    using dora_norm_dense_floor by metis
qed

theorem dora_weight_norm_floor_witness:
  "(wf_layer (dora_layer [[0, 0], [0, 1]] [[0], [0]])
   \<and> 0 < rank (dora_layer [[0, 0], [0, 1]] [[0], [0]])
   \<and> \<not> quantize_base (dora_layer [[0, 0], [0, 1]] [[0], [0]])
   \<and> dora_weight_norm no_nf4 (dora_layer [[0, 0], [0, 1]] [[0], [0]])
       = Inr (Dense (vec1d [1 / 1000000, 1]))
   \<and> list_all (list_all ((\<le>) (1 / 1000000))) (rows (vec1d [1 / 1000000, 1])))
   \<and> (wf_layer (dora_layer_q [[0, 0], [0, 1]] [[0], [0]])
   \<and> 0 < rank (dora_layer_q [[0, 0], [0, 1]] [[0], [0]])
   \<and> dense_weight lossy (dora_layer_q [[0, 0], [0, 1]] [[0], [0]])
       = Inr \<lparr>lead = [2], width = 2, rows = [[0, 0], [0, 1]]\<rparr>
   \<and> is_mat 2 2 \<lparr>lead = [2], width = 2, rows = [[0, 0], [0, 1]]\<rparr>
   \<and> dora_weight_norm lossy (dora_layer_q [[0, 0], [0, 1]] [[0], [0]]) = Inr (NF4 (vec1d [0, 1]))
   \<and> dora_norm_dense lossy (dora_layer_q [[0, 0], [0, 1]] [[0], [0]])
       = Inr (vec1d [1 / 1000000, 1])
   \<and> list_all (list_all ((\<le>) (1 / 1000000))) (rows (vec1d [1 / 1000000, 1]))
   \<and> to_nf4 lossy (vec1d [1 / 1000000, 1]) = Inr (vec1d [0, 1]))"
proof -
  have plain:
    "wf_layer (dora_layer [[0, 0], [0, 1]] [[0], [0]])
     \<and> 0 < rank (dora_layer [[0, 0], [0, 1]] [[0], [0]])
     \<and> \<not> quantize_base (dora_layer [[0, 0], [0, 1]] [[0], [0]])
     \<and> dora_weight_norm no_nf4 (dora_layer [[0, 0], [0, 1]] [[0], [0]])
         = Inr (Dense (vec1d [1 / 1000000, 1]))
     \<and> list_all (list_all ((\<le>) (1 / 1000000))) (rows (vec1d [1 / 1000000, 1]))"
  proof -
    let ?l = "dora_layer [[0, 0], [0, 1]] [[0], [0]]"
    have run: "dora_weight_norm no_nf4 ?l = Inr (Dense (vec1d [1 / 1000000, 1]))"
      using dora_layer_norm_run [of 0 0 0 1 0 0] by simp
    from dora_weight_norm_floor [of no_nf4 ?l] run
    obtain n where "list_all (list_all ((\<le>) (1 / 1000000))) (rows n)" "vec1d [1 / 1000000, 1] = n"
      by auto
    then have "list_all (list_all ((\<le>) (1 / 1000000))) (rows (vec1d [1 / 1000000, 1]))"
      by blast
    with run dora_layer_wf [of 0 0 0 1 0 0] show ?thesis
      by (simp add: dora_layer_def)
  qed
  have encoded:
    "wf_layer (dora_layer_q [[0, 0], [0, 1]] [[0], [0]])
     \<and> 0 < rank (dora_layer_q [[0, 0], [0, 1]] [[0], [0]])
     \<and> dense_weight lossy (dora_layer_q [[0, 0], [0, 1]] [[0], [0]])
         = Inr \<lparr>lead = [2], width = 2, rows = [[0, 0], [0, 1]]\<rparr>
     \<and> is_mat 2 2 \<lparr>lead = [2], width = 2, rows = [[0, 0], [0, 1]]\<rparr>
     \<and> dora_weight_norm lossy (dora_layer_q [[0, 0], [0, 1]] [[0], [0]]) = Inr (NF4 (vec1d [0, 1]))
     \<and> dora_norm_dense lossy (dora_layer_q [[0, 0], [0, 1]] [[0], [0]])
         = Inr (vec1d [1 / 1000000, 1])
     \<and> list_all (list_all ((\<le>) (1 / 1000000))) (rows (vec1d [1 / 1000000, 1]))
     \<and> to_nf4 lossy (vec1d [1 / 1000000, 1]) = Inr (vec1d [0, 1])"
  proof -
    let ?l = "dora_layer_q [[0, 0], [0, 1]] [[0], [0]]"
    have wf: "wf_layer ?l" by (rule dora_layer_q_wf)
    have rk: "0 < rank ?l" by (simp add: dora_layer_q_def)
    have w: "dense_weight lossy ?l = Inr \<lparr>lead = [2], width = 2, rows = [[0, 0], [0, 1]]\<rparr>"
      by (rule dora_layer_q_dense_weight_lossy)
    have sh: "is_mat 2 2 \<lparr>lead = [2], width = 2, rows = [[0, 0], [0, 1]]\<rparr>"
      by (simp add: is_mat_def wf_dense_def)
    note run = dora_layer_q_lossy_run
    from dora_weight_norm_floor [of lossy ?l] run
    obtain n where n: "dora_norm_dense lossy ?l = Inr n"
      "list_all (list_all ((\<le>) (1 / 1000000))) (rows n)" "to_nf4 lossy n = Inr (vec1d [0, 1])"
      by auto
    with run have "n = vec1d [1 / 1000000, 1]" by simp
    with n run wf rk w sh show ?thesis by simp
  qed
  from plain encoded show ?thesis ..
qed

section \<open>The magnitude commit\<close>

text \<open>
  C6, as the claim states it, fails on a base weight with an all-zero row: the committed
  magnitude of that row is the floor \<open>1e-6\<close>, not the row's norm \<open>0\<close>.
\<close>

theorem init_dora_zero_row_counterexample:
  "init_dora no_nf4 (dora_layer [[0, 0], [0, 1]] [[0], [0]])
     = Inr ((dora_layer [[0, 0], [0, 1]] [[0], [0]])
              \<lparr>lora_m := Some (Dense (vec1d [1 / 1000000, 1]))\<rparr>)
   \<and> map (spec_row_norm 2 \<lparr>lead = [2], width = 2, rows = [[0, 0], [0, 1]]\<rparr>) [0..<2] = [0, 1]
   \<and> Some (Dense (vec1d [1 / 1000000, 1]))
       \<noteq> Some (Dense (vec1d (map (spec_row_norm 2 \<lparr>lead = [2], width = 2,
                                                   rows = [[0, 0], [0, 1]]\<rparr>) [0..<2])))"
proof -
  have "init_dora no_nf4 (dora_layer [[0, 0], [0, 1]] [[0], [0]])
     = Inr ((dora_layer [[0, 0], [0, 1]] [[0], [0]])
              \<lparr>lora_m := Some (Dense (vec1d [1 / 1000000, 1]))\<rparr>)"
    using dora_layer_norm_run [of 0 0 0 1 0 0] by (simp add: init_dora_def dora_layer_def)
  moreover have "map (spec_row_norm 2 \<lparr>lead = [2], width = 2, rows = [[0, 0], [0, 1]]\<rparr>) [0..<2]
      = [0, 1]"
    by (simp add: upt_0_2 spec_row_norm_def entry_def two_sum)
  ultimately show ?thesis by (simp add: vec1d_def)
qed

text \<open>
  C6, amended: on a DoRA layer that satisfies the invariant, with a positive rank and
  factor B all zeros, \<open>init_dora\<close> sets the magnitude to the vector whose entry \<open>j\<close> is the
  Euclidean norm of row \<open>j\<close> of the base weight (decoded when it is stored encoded),
  clamped below at \<open>1e-6\<close>, handed to the encoder when the base weight is encoded. On
  every row whose norm is at least \<open>1e-6\<close> the entry is the row's norm.
\<close>

theorem init_dora_zero_b:
  assumes wf: "wf_layer l" and dora: "use_dora l" and rk: "0 < rank l"
    and w: "dense_weight ops l = Inr w" and shape: "is_mat (out_dim l) (in_dim l) w"
    and zero: "list_all (list_all (\<lambda>v. v = 0)) (rows (lora_b l))"
  shows "init_dora ops l =
     (if quantize_base l then
        (case to_nf4 ops (vec1d (map (\<lambda>j. max (1 / 1000000) (spec_row_norm (in_dim l) w j))
                                  [0..<out_dim l])) of
           Inl e \<Rightarrow> Inl e
         | Inr q \<Rightarrow> Inr (l\<lparr>lora_m := Some (NF4 q)\<rparr>))
      else Inr (l\<lparr>lora_m := Some (Dense (vec1d
                  (map (\<lambda>j. max (1 / 1000000) (spec_row_norm (in_dim l) w j))
                     [0..<out_dim l])))\<rparr>))
     \<and> (\<forall>j<out_dim l. 1 / 1000000 \<le> spec_row_norm (in_dim l) w j \<longrightarrow>
            max (1 / 1000000) (spec_row_norm (in_dim l) w j) = spec_row_norm (in_dim l) w j)"
proof -
  note parts = wf_layer_parts(1,2) [OF wf]
  have "map (spec_dora_norm (alpha l) (rank l) (in_dim l) w (lora_b l) (lora_a l)) [0..<out_dim l]
          = map (\<lambda>j. max (1 / 1000000) (spec_row_norm (in_dim l) w j)) [0..<out_dim l]"
    using spec_dora_norm_zero_b [OF parts(2) zero] by simp
  with dora_norm_dense_spec [OF w shape parts rk]
  have nrm: "dora_norm_dense ops l
     = Inr (vec1d (map (\<lambda>j. max (1 / 1000000) (spec_row_norm (in_dim l) w j)) [0..<out_dim l]))"
    by simp
  from wf dora obtain m where "lora_m l = Some m"
    by (auto simp: wf_layer_def split: option.splits)
  with nrm show ?thesis
    by (simp add: init_dora_def dora_weight_norm_def split: sum.splits)
qed

theorem init_dora_zero_b_witness:
  "(wf_layer (dora_layer [[3, 4], [0, 0]] [[0], [0]])
   \<and> use_dora (dora_layer [[3, 4], [0, 0]] [[0], [0]])
   \<and> 0 < rank (dora_layer [[3, 4], [0, 0]] [[0], [0]])
   \<and> dense_weight no_nf4 (dora_layer [[3, 4], [0, 0]] [[0], [0]])
       = Inr \<lparr>lead = [2], width = 2, rows = [[3, 4], [0, 0]]\<rparr>
   \<and> is_mat 2 2 \<lparr>lead = [2], width = 2, rows = [[3, 4], [0, 0]]\<rparr>
   \<and> list_all (list_all (\<lambda>v. v = 0)) (rows (lora_b (dora_layer [[3, 4], [0, 0]] [[0], [0]])))
   \<and> init_dora no_nf4 (dora_layer [[3, 4], [0, 0]] [[0], [0]])
       = Inr ((dora_layer [[3, 4], [0, 0]] [[0], [0]])
                \<lparr>lora_m := Some (Dense (vec1d [5, 1 / 1000000]))\<rparr>))
   \<and> (wf_layer (dora_layer_q [[3, 4], [0, 0]] [[0], [0]])
   \<and> dense_weight lossless (dora_layer_q [[3, 4], [0, 0]] [[0], [0]])
       = Inr \<lparr>lead = [2], width = 2, rows = [[3, 4], [0, 0]]\<rparr>
   \<and> init_dora lossless (dora_layer_q [[3, 4], [0, 0]] [[0], [0]])
       = Inr ((dora_layer_q [[3, 4], [0, 0]] [[0], [0]])
                \<lparr>lora_m := Some (NF4 (vec1d [5, 1 / 1000000]))\<rparr>))"
proof -
  have plain:
    "wf_layer (dora_layer [[3, 4], [0, 0]] [[0], [0]])
   \<and> use_dora (dora_layer [[3, 4], [0, 0]] [[0], [0]])
   \<and> 0 < rank (dora_layer [[3, 4], [0, 0]] [[0], [0]])
   \<and> dense_weight no_nf4 (dora_layer [[3, 4], [0, 0]] [[0], [0]])
       = Inr \<lparr>lead = [2], width = 2, rows = [[3, 4], [0, 0]]\<rparr>
   \<and> is_mat 2 2 \<lparr>lead = [2], width = 2, rows = [[3, 4], [0, 0]]\<rparr>
   \<and> list_all (list_all (\<lambda>v. v = 0)) (rows (lora_b (dora_layer [[3, 4], [0, 0]] [[0], [0]])))
   \<and> init_dora no_nf4 (dora_layer [[3, 4], [0, 0]] [[0], [0]])
       = Inr ((dora_layer [[3, 4], [0, 0]] [[0], [0]])
                \<lparr>lora_m := Some (Dense (vec1d [5, 1 / 1000000]))\<rparr>)"
  proof -
    let ?l = "dora_layer [[3, 4], [0, 0]] [[0], [0]]"
    let ?w = "\<lparr>lead = [2], width = 2, rows = [[3, 4], [0, 0]]\<rparr>"
    have wf: "wf_layer ?l" by (rule dora_layer_wf)
    have dora: "use_dora ?l" and rk: "0 < rank ?l"
      and zero: "list_all (list_all (\<lambda>v. v = 0)) (rows (lora_b ?l))"
      by (simp_all add: dora_layer_def)
    have w: "dense_weight no_nf4 ?l = Inr ?w" by (rule dora_layer_dense_weight)
    have shape: "is_mat (out_dim ?l) (in_dim ?l) ?w"
      by (simp add: dora_layer_def is_mat_def wf_dense_def)
    have five: "sqrt 25 = 5"
      by (rule real_sqrt_unique) simp_all
    have "map (\<lambda>j. max (1 / 1000000) (spec_row_norm (in_dim ?l) ?w j)) [0..<out_dim ?l]
            = [5, 1 / 1000000]"
      by (simp add: dora_layer_def upt_0_2 spec_row_norm_def entry_def two_sum five)
    with init_dora_zero_b [OF wf dora rk w shape zero]
    have "init_dora no_nf4 ?l = Inr (?l\<lparr>lora_m := Some (Dense (vec1d [5, 1 / 1000000]))\<rparr>)"
      by (simp add: dora_layer_def)
    with wf dora rk w shape zero show ?thesis by (simp add: dora_layer_def)
  qed
  have encoded:
    "wf_layer (dora_layer_q [[3, 4], [0, 0]] [[0], [0]])
   \<and> dense_weight lossless (dora_layer_q [[3, 4], [0, 0]] [[0], [0]])
       = Inr \<lparr>lead = [2], width = 2, rows = [[3, 4], [0, 0]]\<rparr>
   \<and> init_dora lossless (dora_layer_q [[3, 4], [0, 0]] [[0], [0]])
       = Inr ((dora_layer_q [[3, 4], [0, 0]] [[0], [0]])
                \<lparr>lora_m := Some (NF4 (vec1d [5, 1 / 1000000]))\<rparr>)"
  proof -
    let ?l = "dora_layer_q [[3, 4], [0, 0]] [[0], [0]]"
    let ?w = "\<lparr>lead = [2], width = 2, rows = [[3, 4], [0, 0]]\<rparr>"
    have wf: "wf_layer ?l" by (rule dora_layer_q_wf)
    have dora: "use_dora ?l" and rk: "0 < rank ?l"
      and zero: "list_all (list_all (\<lambda>v. v = 0)) (rows (lora_b ?l))"
      by (simp_all add: dora_layer_q_def)
    have w: "dense_weight lossless ?l = Inr ?w" by (rule dora_layer_q_dense_weight)
    have shape: "is_mat (out_dim ?l) (in_dim ?l) ?w"
      by (simp add: dora_layer_q_def is_mat_def wf_dense_def)
    have five: "sqrt 25 = 5"
      by (rule real_sqrt_unique) simp_all
    have "map (\<lambda>j. max (1 / 1000000) (spec_row_norm (in_dim ?l) ?w j)) [0..<out_dim ?l]
            = [5, 1 / 1000000]"
      by (simp add: dora_layer_q_def upt_0_2 spec_row_norm_def entry_def two_sum five)
    with init_dora_zero_b [OF wf dora rk w shape zero]
    have "init_dora lossless ?l = Inr (?l\<lparr>lora_m := Some (NF4 (vec1d [5, 1 / 1000000]))\<rparr>)"
      by (simp add: dora_layer_q_def lossless_def)
    with wf w show ?thesis by simp
  qed
  from plain encoded show ?thesis ..
qed

section \<open>The frame of \<open>init_dora\<close>\<close>

text \<open>
  C10: a call of \<open>init_dora\<close> that returns changes the magnitude \<open>lora_m\<close> and nothing
  else: the base weight, the bias, both factors, the dimensions, \<open>alpha\<close>, the dropout
  probability, the flags and the registered names are those of the state before. On a
  DoRA layer that satisfies the invariant, with a positive rank and a plain base weight,
  the call returns.
\<close>

theorem init_dora_frame:
  "(\<forall>l'. init_dora ops l = Inr l' \<longrightarrow>
      l' = l\<lparr>lora_m := lora_m l'\<rparr>
    \<and> weight l' = weight l \<and> bias l' = bias l \<and> lora_a l' = lora_a l \<and> lora_b l' = lora_b l
    \<and> in_dim l' = in_dim l \<and> out_dim l' = out_dim l \<and> rank l' = rank l \<and> alpha l' = alpha l
    \<and> dropout_p l' = dropout_p l \<and> training l' = training l \<and> disabled l' = disabled l
    \<and> use_bias l' = use_bias l \<and> use_dora l' = use_dora l
    \<and> quantize_base l' = quantize_base l \<and> params l' = params l)
   \<and> (wf_layer l \<and> use_dora l \<and> 0 < rank l \<and> \<not> quantize_base l \<longrightarrow>
        (\<exists>l'. init_dora ops l = Inr l'))"
proof (intro conjI allI impI)
  assume h: "wf_layer l \<and> use_dora l \<and> 0 < rank l \<and> \<not> quantize_base l"
  then obtain n md where "dora_weight_norm ops l = Inr (Dense n)" "lora_m l = Some (Dense md)"
    using dora_weight_norm_plain [of l ops] lora_m_plain [of l] by blast
  then show "\<exists>l'. init_dora ops l = Inr l'"
    by (simp add: init_dora_def)
qed (auto simp: init_dora_def split: sum.splits option.splits)

theorem init_dora_frame_witness:
  "init_dora no_nf4 (dora_layer [[1, 0], [0, 1]] [[0], [0]])
     = Inr ((dora_layer [[1, 0], [0, 1]] [[0], [0]])\<lparr>lora_m := Some (Dense (vec1d [1, 1]))\<rparr>)
   \<and> weight ((dora_layer [[1, 0], [0, 1]] [[0], [0]])\<lparr>lora_m := Some (Dense (vec1d [1, 1]))\<rparr>)
       = weight (dora_layer [[1, 0], [0, 1]] [[0], [0]])"
proof -
  have run: "init_dora no_nf4 (dora_layer [[1, 0], [0, 1]] [[0], [0]])
     = Inr ((dora_layer [[1, 0], [0, 1]] [[0], [0]])\<lparr>lora_m := Some (Dense (vec1d [1, 1]))\<rparr>)"
    by (simp add: init_dora_def dora_weight_norm_def dora_norm_dense_def dense_weight_def
        dora_layer_def
        matmul_def column_def dot_def smul_def tadd_def linalg_norm_dim1_def euclid_def
        clamp_min_def vec1d_def upt_0_2)
  from init_dora_frame [of no_nf4 "dora_layer [[1, 0], [0, 1]] [[0], [0]]"] run
  have "weight ((dora_layer [[1, 0], [0, 1]] [[0], [0]])\<lparr>lora_m := Some (Dense (vec1d [1, 1]))\<rparr>)
       = weight (dora_layer [[1, 0], [0, 1]] [[0], [0]])"
    by blast
  with run show ?thesis by blast
qed

end
